theory Spec2Isabelle
  imports Main "HOL-Library.Word"
begin

section \<open>CPU input boost driver: data model\<close>

text \<open>
  A shallow embedding of \<^verbatim>\<open>drivers/cpufreq/cpu_input_boost.c\<close>. Every C
  \<^verbatim>\<open>unsigned int\<close> is a 32-bit word and every \<^verbatim>\<open>u64\<close> a 64-bit word,
  so sums, products and differences wrap as they do in the driver. Frequencies are in
  kHz, as everywhere in cpufreq.
\<close>

type_synonym u32 = "32 word"
type_synonym u64 = "64 word"

text \<open>\<^verbatim>\<open>enum boost_status\<close>; \<open>UNBOOST\<close> is the value 0, so the C tests
  \<^verbatim>\<open>if (fb_boost)\<close> read \<open>fb_boost \<noteq> UNBOOST\<close>.\<close>

datatype boost_status = UNBOOST | WAITING | BOOST

text \<open>
  \<^verbatim>\<open>struct boost_policy\<close>, one per possible CPU. The two \<^verbatim>\<open>delayed_work\<close>
  members are kept as the state of their timer: \<open>None\<close> when nothing is queued,
  \<open>Some d\<close> when the work has been queued with a delay of \<open>d\<close> milliseconds (the
  argument handed to \<^verbatim>\<open>msecs_to_jiffies\<close>). The members \<^verbatim>\<open>thread\<close>,
  \<^verbatim>\<open>being_woken\<close>, \<^verbatim>\<open>lock\<close> and \<^verbatim>\<open>sync_wq\<close> only serve the
  scheduling of the sync thread and carry no data of the arbitration.
\<close>

record boost_policy =
  ib_restore_work :: "u32 option"
  mig_boost_rem :: "u32 option"
  pending :: bool
  src_cpu :: nat
  boost_state :: boost_status
  cpu :: nat
  migration_freq :: u32
  task_load :: u32

text \<open>
  The file-scope variables of the driver. \<open>boost_info\<close> is the per-CPU array, indexed
  by CPU id over the possible CPUs; \<open>ib_freq\<close> is the two-element array
  \<^verbatim>\<open>ib_freq[2]\<close>. \<open>fb_boost_work\<close> is a delayed work (as above) and \<open>boost_work\<close>
  a plain work item (queued or not). \<open>policy_updates\<close> records, oldest first, the CPUs
  for which \<^verbatim>\<open>cpufreq_update_policy\<close> has been called: the request to the
  governor to re-evaluate that CPU's policy.
\<close>

record state =
  boost_info :: "boost_policy list"
  fb_boost_work :: "u32 option"
  boost_work :: bool
  ib_running :: bool
  load_based_syncs :: bool
  suspended :: bool
  fb_boost :: boost_status
  boost_start_time :: u64
  ib_adj_duration_ms :: u32
  ib_duration_ms :: u32
  ib_freq :: "u32 list"
  enabled :: u32
  migration_boost_ms :: u32
  migration_load_threshold :: u32
  ib_nr_cpus_boosted :: u32
  ib_nr_cpus_to_boost :: u32
  policy_updates :: "nat list"

text \<open>The fields of \<^verbatim>\<open>struct cpufreq_policy\<close> that the driver reads or writes:
  \<^verbatim>\<open>cpu\<close>, \<^verbatim>\<open>min\<close>, \<^verbatim>\<open>max\<close>, \<^verbatim>\<open>cur\<close> and
  \<^verbatim>\<open>cpuinfo.min_freq\<close>.\<close>

record cpufreq_policy =
  policy_cpu :: nat
  policy_min :: u32
  policy_max :: u32
  policy_cur :: u32
  cpuinfo_min_freq :: u32

text \<open>The notifier events \<^verbatim>\<open>do_cpu_boost\<close> distinguishes; every other value of
  \<^verbatim>\<open>val\<close> behaves as \<open>CPUFREQ_NOTIFY\<close> does.\<close>

datatype policy_event = CPUFREQ_ADJUST | CPUFREQ_INCOMPATIBLE | CPUFREQ_NOTIFY | CPUFREQ_START

datatype fb_event = FB_EVENT_BLANK | FB_EVENT_OTHER

datatype errno = EINVAL

definition FB_BOOST_MS :: u32 where
  "FB_BOOST_MS = 900"

text \<open>\<^verbatim>\<open>FB_BLANK_UNBLANK\<close> of \<^verbatim>\<open>linux/fb.h\<close>.\<close>

definition FB_BLANK_UNBLANK :: int where
  "FB_BLANK_UNBLANK = 0"

subsection \<open>The timer service\<close>

text \<open>
  Modelled from the spec: the workqueue primitives \<^verbatim>\<open>queue_delayed_work\<close>,
  \<^verbatim>\<open>queue_delayed_work_on\<close> and \<^verbatim>\<open>cancel_delayed_work_sync\<close> belong to the kernel
  and are not part of the driver's file. The specification describes them as a generic
  cancelable timer service: scheduling arms the one-shot timer with the given delay,
  cancelling disarms it and returns once no callback is in flight.
\<close>

definition queue_delayed_work :: "u32 \<Rightarrow> u32 option" where
  "queue_delayed_work delay_ms = Some delay_ms"

definition cancel_delayed_work_sync :: "u32 option" where
  "cancel_delayed_work_sync = None"

text \<open>
  Modelled from the spec: \<^verbatim>\<open>cpufreq_update_policy\<close> belongs to the cpufreq core and is
  not part of the driver's file. The specification describes it as the outbound request
  \<open>requestReevaluation(cpuId)\<close> that wakes the governor, which calls the policy notifier
  for that CPU later. The request is appended to the log.
\<close>

definition cpufreq_update_policy :: "nat \<Rightarrow> state \<Rightarrow> state" where
  "cpufreq_update_policy c s = s\<lparr>policy_updates := policy_updates s @ [c]\<rparr>"

text \<open>\<^verbatim>\<open>per_cpu(boost_info, cpu)\<close> read, and an update of that element in place.\<close>

definition per_cpu :: "state \<Rightarrow> nat \<Rightarrow> boost_policy" where
  "per_cpu s c = boost_info s ! c"

definition set_per_cpu :: "nat \<Rightarrow> (boost_policy \<Rightarrow> boost_policy) \<Rightarrow> state \<Rightarrow> state" where
  "set_per_cpu c f s = s\<lparr>boost_info := (boost_info s)[c := f (boost_info s ! c)]\<rparr>"

section \<open>Input boost\<close>

text \<open>
  \<^verbatim>\<open>boost_cpu0(duration_ms)\<close>; \<open>now\<close> is the value of
  \<^verbatim>\<open>ktime_to_ms(ktime_get())\<close> at the call.
\<close>

definition boost_cpu0 :: "u64 \<Rightarrow> u32 \<Rightarrow> state \<Rightarrow> state" where
  "boost_cpu0 now duration_ms s =
     (let s1 = set_per_cpu 0 (\<lambda>b. b\<lparr>boost_state := BOOST\<rparr>) s;
          s2 = s1\<lparr>ib_nr_cpus_boosted := ib_nr_cpus_boosted s1 + 1\<rparr>;
          s3 = cpufreq_update_policy 0 s2;
          s4 = set_per_cpu 0 (\<lambda>b. b\<lparr>ib_restore_work := queue_delayed_work duration_ms\<rparr>) s3
      in s4\<lparr>boost_start_time := now\<rparr>)"

text \<open>\<^verbatim>\<open>unboost_cpu(cpu)\<close>; \<open>online\<close> is \<^verbatim>\<open>cpu_online\<close>.\<close>

definition unboost_cpu :: "(nat \<Rightarrow> bool) \<Rightarrow> nat \<Rightarrow> state \<Rightarrow> state" where
  "unboost_cpu online c s =
     (let s1 = set_per_cpu c (\<lambda>b. b\<lparr>boost_state := UNBOOST\<rparr>) s;
          b = per_cpu s1 c
      in if online (cpu b) then cpufreq_update_policy (cpu b) s1 else s1)"

text \<open>The body of the \<^verbatim>\<open>for_each_possible_cpu\<close> loop of
  \<^verbatim>\<open>unboost_all_cpus\<close>, and the loop over the CPU ids \<open>cs\<close>.\<close>

definition unboost_all_step :: "(nat \<Rightarrow> bool) \<Rightarrow> nat \<Rightarrow> state \<Rightarrow> state" where
  "unboost_all_step online c s =
     (let s1 = set_per_cpu c (\<lambda>b. b\<lparr>boost_state := UNBOOST\<rparr>) s
      in if online c then cpufreq_update_policy c s1 else s1)"

fun unboost_all_loop :: "(nat \<Rightarrow> bool) \<Rightarrow> nat list \<Rightarrow> state \<Rightarrow> state" where
  "unboost_all_loop online [] s = s"
| "unboost_all_loop online (c # cs) s = unboost_all_loop online cs (unboost_all_step online c s)"

text \<open>The possible CPUs are the indices of the per-CPU array.\<close>

definition possible_cpus :: "state \<Rightarrow> nat list" where
  "possible_cpus s = [0..<length (boost_info s)]"

definition unboost_all_cpus :: "(nat \<Rightarrow> bool) \<Rightarrow> state \<Rightarrow> state" where
  "unboost_all_cpus online s =
     (unboost_all_loop online (possible_cpus s) s)\<lparr>ib_running := False\<rparr>"

text \<open>\<^verbatim>\<open>stop_remove_all_boosts\<close>: the loop body and the function.\<close>

definition stop_remove_step :: "nat \<Rightarrow> state \<Rightarrow> state" where
  "stop_remove_step c s =
     set_per_cpu c (\<lambda>b. b\<lparr>mig_boost_rem := cancel_delayed_work_sync,
                          ib_restore_work := cancel_delayed_work_sync,
                          migration_freq := 0\<rparr>) s"

fun stop_remove_loop :: "nat list \<Rightarrow> state \<Rightarrow> state" where
  "stop_remove_loop [] s = s"
| "stop_remove_loop (c # cs) s = stop_remove_loop cs (stop_remove_step c s)"

definition stop_remove_all_boosts :: "(nat \<Rightarrow> bool) \<Rightarrow> state \<Rightarrow> state" where
  "stop_remove_all_boosts online s =
     (let s1 = s\<lparr>boost_work := False\<rparr>;
          s2 = s1\<lparr>fb_boost_work := cancel_delayed_work_sync\<rparr>;
          s3 = s2\<lparr>fb_boost := UNBOOST\<rparr>;
          s4 = stop_remove_loop (possible_cpus s3) s3
      in unboost_all_cpus online s4)"

text \<open>
  \<^verbatim>\<open>ib_boost_main\<close>, the cycle-start worker. \<open>n_online\<close> is
  \<^verbatim>\<open>num_online_cpus()\<close> (an \<^verbatim>\<open>unsigned int\<close>), read under
  \<^verbatim>\<open>get_online_cpus\<close>, so both reads give the same number.
\<close>

definition ib_boost_main :: "u32 \<Rightarrow> u64 \<Rightarrow> state \<Rightarrow> state" where
  "ib_boost_main n_online now s =
     (let s1 = s\<lparr>ib_nr_cpus_boosted := 0\<rparr>;
          s2 = s1\<lparr>ib_nr_cpus_to_boost := (if n_online = 1 then 2 else 1)\<rparr>;
          s3 = s2\<lparr>ib_adj_duration_ms := ib_duration_ms s2 * 3 div (3 + n_online)\<rparr>
      in boost_cpu0 now (ib_adj_duration_ms s3 + 10) s3)"

text \<open>\<^verbatim>\<open>ib_restore_main\<close> for the restore work of the array element \<open>k\<close>.\<close>

definition ib_restore_main :: "(nat \<Rightarrow> bool) \<Rightarrow> nat \<Rightarrow> state \<Rightarrow> state" where
  "ib_restore_main online k s =
     (let s1 = unboost_cpu online (cpu (per_cpu s k)) s
      in if list_ex (\<lambda>b. boost_state b = BOOST) (boost_info s1) then s1
         else s1\<lparr>ib_running := False\<rparr>)"

section \<open>Framebuffer boost\<close>

fun update_policy_loop :: "nat list \<Rightarrow> state \<Rightarrow> state" where
  "update_policy_loop [] s = s"
| "update_policy_loop (c # cs) s = update_policy_loop cs (cpufreq_update_policy c s)"

definition fb_boost_main :: "(nat \<Rightarrow> bool) \<Rightarrow> state \<Rightarrow> state" where
  "fb_boost_main online s =
     (if fb_boost s = BOOST then
        (let s1 = update_policy_loop (filter online (possible_cpus s)) s;
             s2 = s1\<lparr>fb_boost := WAITING\<rparr>
         in s2\<lparr>fb_boost_work := queue_delayed_work FB_BOOST_MS\<rparr>)
      else unboost_all_cpus online (s\<lparr>fb_boost := UNBOOST\<rparr>))"

definition fb_blank_boost :: "fb_event \<Rightarrow> int \<Rightarrow> state \<Rightarrow> state" where
  "fb_blank_boost val blank s =
     (if enabled s = 0 then s
      else if val \<noteq> FB_EVENT_BLANK then s
      else if blank \<noteq> FB_BLANK_UNBLANK then s\<lparr>suspended := True\<rparr>
      else (let s1 = s\<lparr>suspended := False\<rparr>
            in if fb_boost s1 \<noteq> UNBOOST then s1
               else (s1\<lparr>fb_boost := BOOST\<rparr>)\<lparr>fb_boost_work := queue_delayed_work 0\<rparr>))"

definition cpu_ib_input_event :: "state \<Rightarrow> state" where
  "cpu_ib_input_event s =
     (if ib_running s \<or> enabled s = 0 \<or> fb_boost s \<noteq> UNBOOST then s
      else (s\<lparr>ib_running := True\<rparr>)\<lparr>boost_work := True\<rparr>)"

section \<open>The policy notifier\<close>

text \<open>
  The three stages of the \<^verbatim>\<open>CPUFREQ_ADJUST\<close> path of \<^verbatim>\<open>do_cpu_boost\<close> once the
  framebuffer boost has been ruled out. First the floor by the CPU's input-boost state.
\<close>

definition input_boost_floor :: "state \<Rightarrow> cpufreq_policy \<Rightarrow> cpufreq_policy" where
  "input_boost_floor s policy =
     (let b = per_cpu s (policy_cpu policy)
      in if boost_state b = UNBOOST then policy\<lparr>policy_min := cpuinfo_min_freq policy\<rparr>
         else if boost_state b = BOOST then
           policy\<lparr>policy_min :=
             min (policy_max policy) (ib_freq s ! (if policy_cpu policy \<noteq> 0 then 1 else 0))\<rparr>
         else policy)"

text \<open>
  \<^verbatim>\<open>int duration_ms = ib_adj_duration_ms - (ktime_to_ms(ktime_get()) - boost_start_time)\<close>:
  the difference is taken in 64 bits, unsigned, and cut to the 32 bits of the
  \<^verbatim>\<open>int\<close>; the test \<^verbatim>\<open>duration_ms > 0\<close> reads it as a signed number.
\<close>

definition duration_ms :: "u64 \<Rightarrow> state \<Rightarrow> u32" where
  "duration_ms now s =
     ucast ((ucast (ib_adj_duration_ms s) :: u64) - (now - boost_start_time s))"

text \<open>The block "Boost previously-offline CPU".\<close>

definition boost_offline_cpu ::
  "u64 \<Rightarrow> cpufreq_policy \<Rightarrow> state \<Rightarrow> cpufreq_policy \<times> state" where
  "boost_offline_cpu now policy s =
     (if ib_nr_cpus_boosted s < ib_nr_cpus_to_boost s \<and> policy_cpu policy \<noteq> 0 then
        (if 0 < sint (duration_ms now s) then
           (let s1 = set_per_cpu (policy_cpu policy) (\<lambda>b. b\<lparr>boost_state := BOOST\<rparr>) s;
                policy1 = policy\<lparr>policy_min := min (policy_max policy) (ib_freq s1 ! 1)\<rparr>;
                s2 = s1\<lparr>ib_nr_cpus_boosted := ib_nr_cpus_boosted s1 + 1\<rparr>;
                s3 = set_per_cpu (policy_cpu policy)
                       (\<lambda>b. b\<lparr>ib_restore_work := queue_delayed_work (duration_ms now s)\<rparr>) s2
            in (policy1, s3))
         else (policy, s))
      else (policy, s))"

text \<open>The last statement: the migration boost frequency, when it is above the floor.\<close>

definition migration_floor :: "state \<Rightarrow> cpufreq_policy \<Rightarrow> cpufreq_policy" where
  "migration_floor s policy =
     (let b = per_cpu s (policy_cpu policy)
      in if migration_freq b > policy_min policy then
           policy\<lparr>policy_min := min (policy_max policy) (migration_freq b)\<rparr>
         else policy)"

text \<open>
  \<^verbatim>\<open>do_cpu_boost(nb, val, data)\<close>. The result is the policy as the notifier leaves it
  and the new state; the return value is \<^verbatim>\<open>NOTIFY_OK\<close> on every path. On
  \<^verbatim>\<open>CPUFREQ_START\<close> the sync thread is bound to its CPU, which changes nothing
  of the state kept here.
\<close>

definition do_cpu_boost ::
  "u64 \<Rightarrow> policy_event \<Rightarrow> cpufreq_policy \<Rightarrow> state \<Rightarrow> cpufreq_policy \<times> state" where
  "do_cpu_boost now val policy s =
     (if enabled s = 0 \<and> policy_min policy = cpuinfo_min_freq policy then (policy, s)
      else if val = CPUFREQ_START then (policy, s)
      else if val \<noteq> CPUFREQ_ADJUST then (policy, s)
      else if fb_boost s \<noteq> UNBOOST then (policy\<lparr>policy_min := policy_max policy\<rparr>, s)
      else (let policy1 = input_boost_floor s policy;
                (policy2, s2) = boost_offline_cpu now policy1 s
            in (migration_floor s2 policy2, s2)))"

section \<open>Thread-migration boost\<close>

text \<open>\<^verbatim>\<open>do_mig_boost_rem\<close> for the removal work of the array element \<open>k\<close>.\<close>

definition do_mig_boost_rem :: "nat \<Rightarrow> state \<Rightarrow> state" where
  "do_mig_boost_rem k s =
     (let s1 = set_per_cpu k (\<lambda>b. b\<lparr>migration_freq := 0\<rparr>) s
      in cpufreq_update_policy (cpu (per_cpu s1 k)) s1)"

text \<open>
  One pass through the body of the \<^verbatim>\<open>while (1)\<close> loop of
  \<^verbatim>\<open>boost_mig_sync_thread\<close>, from the return of \<^verbatim>\<open>wait_event_interruptible\<close>
  with \<^verbatim>\<open>kthread_should_stop()\<close> false to the next wait. \<open>get_policy\<close> is
  \<^verbatim>\<open>cpufreq_get_policy\<close>: \<open>None\<close> when it returns an error, else the policy it
  fills in.
\<close>

definition boost_mig_sync_thread ::
  "(nat \<Rightarrow> cpufreq_policy option) \<Rightarrow> (nat \<Rightarrow> bool) \<Rightarrow> nat \<Rightarrow> state \<Rightarrow> state" where
  "boost_mig_sync_thread get_policy online dest_cpu s =
     (let s1 = set_per_cpu dest_cpu (\<lambda>b. b\<lparr>pending := False\<rparr>) s;
          src = src_cpu (per_cpu s1 dest_cpu)
      in case get_policy src of
           None \<Rightarrow> s1
         | Some src_policy \<Rightarrow>
            (case get_policy dest_cpu of
               None \<Rightarrow> s1
             | Some dest_policy \<Rightarrow>
                (let req_freq = max (policy_max dest_policy * task_load (per_cpu s1 dest_cpu) div 100)
                                    (policy_cur src_policy)
                 in if req_freq \<le> cpuinfo_min_freq dest_policy then s1
                    else
                      (let s2 = set_per_cpu dest_cpu
                                  (\<lambda>b. b\<lparr>mig_boost_rem := cancel_delayed_work_sync\<rparr>) s1;
                           s3 = set_per_cpu dest_cpu (\<lambda>b. b\<lparr>migration_freq := req_freq\<rparr>) s2;
                           s4 = (if online src then cpufreq_update_policy src s3 else s3)
                       in if online dest_cpu then
                            set_per_cpu dest_cpu
                              (\<lambda>b. b\<lparr>mig_boost_rem := queue_delayed_work (migration_boost_ms s4)\<rparr>)
                              (cpufreq_update_policy dest_cpu s4)
                          else set_per_cpu dest_cpu (\<lambda>b. b\<lparr>migration_freq := 0\<rparr>) s4))))"

text \<open>
  \<^verbatim>\<open>struct migration_notify_data\<close>. \<^verbatim>\<open>load\<close> is a C \<^verbatim>\<open>int\<close>; where the
  driver compares it with an \<^verbatim>\<open>unsigned int\<close> or stores it in one, it is converted
  (\<open>word_of_int\<close>).
\<close>

record migration_notify_data =
  mnd_src_cpu :: nat
  mnd_dest_cpu :: nat
  mnd_load :: int

text \<open>
  \<^verbatim>\<open>boost_migration_notify\<close>. \<open>is_current\<close> is the test
  \<^verbatim>\<open>b->thread == current\<close>. Waking the sync thread is the setting of \<open>pending\<close>,
  on which the thread waits.
\<close>

definition boost_migration_notify :: "bool \<Rightarrow> migration_notify_data \<Rightarrow> state \<Rightarrow> state" where
  "boost_migration_notify is_current mnd s =
     (if enabled s = 0 \<or> migration_boost_ms s = 0 then s
      else if suspended s \<or> fb_boost s \<noteq> UNBOOST then s
      else if load_based_syncs s \<and> (word_of_int (mnd_load mnd) :: u32) \<le> migration_load_threshold s
        then s
      else if load_based_syncs s \<and> (mnd_load mnd < 0 \<or> mnd_load mnd > 100) then s
      else if is_current then s
      else set_per_cpu (mnd_dest_cpu mnd)
             (\<lambda>b. b\<lparr>pending := True, src_cpu := mnd_src_cpu mnd,
                    task_load := (if load_based_syncs s then word_of_int (mnd_load mnd) else 0)\<rparr>) s)"

section \<open>The sysfs interface\<close>

text \<open>
  Each write handler receives the values that \<^verbatim>\<open>sscanf\<close> converted from the buffer, in
  order (\<open>scanned\<close>; the return value of \<^verbatim>\<open>sscanf\<close> is their number), and the
  size \<open>sz\<close> of the buffer. It returns \<open>Inl EINVAL\<close> for \<^verbatim>\<open>-EINVAL\<close> or \<open>Inr sz\<close>,
  and the new state.
\<close>

definition enabled_write ::
  "(nat \<Rightarrow> bool) \<Rightarrow> u32 list \<Rightarrow> nat \<Rightarrow> state \<Rightarrow> (errno + nat) \<times> state" where
  "enabled_write online scanned sz s =
     (if length scanned \<noteq> 1 then (Inl EINVAL, s)
      else (let s1 = s\<lparr>enabled := scanned ! 0\<rparr>;
                s2 = (if enabled s1 = 0 then stop_remove_all_boosts online s1 else s1)
            in (Inr sz, s2)))"

definition ib_freqs_write :: "u32 list \<Rightarrow> nat \<Rightarrow> state \<Rightarrow> (errno + nat) \<times> state" where
  "ib_freqs_write scanned sz s =
     (if length scanned \<noteq> 2 then (Inl EINVAL, s)
      else if scanned ! 0 = 0 \<or> scanned ! 1 = 0 then (Inl EINVAL, s)
      else (Inr sz, s\<lparr>ib_freq := [scanned ! 0, scanned ! 1]\<rparr>))"

definition ib_duration_ms_write :: "u32 list \<Rightarrow> nat \<Rightarrow> state \<Rightarrow> (errno + nat) \<times> state" where
  "ib_duration_ms_write scanned sz s =
     (if length scanned \<noteq> 1 then (Inl EINVAL, s)
      else if scanned ! 0 = 0 then (Inl EINVAL, s)
      else (Inr sz, s\<lparr>ib_duration_ms := scanned ! 0\<rparr>))"

definition load_based_syncs_write :: "u32 list \<Rightarrow> nat \<Rightarrow> state \<Rightarrow> (errno + nat) \<times> state" where
  "load_based_syncs_write scanned sz s =
     (if length scanned \<noteq> 1 then (Inl EINVAL, s)
      else (Inr sz, s\<lparr>load_based_syncs := (scanned ! 0 \<noteq> 0)\<rparr>))"

definition migration_boost_ms_write :: "u32 list \<Rightarrow> nat \<Rightarrow> state \<Rightarrow> (errno + nat) \<times> state" where
  "migration_boost_ms_write scanned sz s =
     (if length scanned \<noteq> 1 then (Inl EINVAL, s)
      else (Inr sz, s\<lparr>migration_boost_ms := scanned ! 0\<rparr>))"

definition migration_load_threshold_write ::
  "u32 list \<Rightarrow> nat \<Rightarrow> state \<Rightarrow> (errno + nat) \<times> state" where
  "migration_load_threshold_write scanned sz s =
     (if length scanned \<noteq> 1 then (Inl EINVAL, s)
      else (Inr sz, s\<lparr>migration_load_threshold := scanned ! 0\<rparr>))"

section \<open>Start-up and the runs of the driver\<close>

text \<open>
  The state \<^verbatim>\<open>cpu_ib_init\<close> leaves for \<open>n\<close> possible CPUs: the variables have static
  storage, so they start as zero, and the initialisation stores each element's index in
  its \<^verbatim>\<open>cpu\<close> member.
\<close>

definition boost_policy_init :: "nat \<Rightarrow> boost_policy" where
  "boost_policy_init c =
     \<lparr>ib_restore_work = None, mig_boost_rem = None, pending = False, src_cpu = 0,
      boost_state = UNBOOST, cpu = c, migration_freq = 0, task_load = 0\<rparr>"

definition cpu_ib_init :: "nat \<Rightarrow> state" where
  "cpu_ib_init n =
     \<lparr>boost_info = map boost_policy_init [0..<n], fb_boost_work = None, boost_work = False,
      ib_running = False, load_based_syncs = False, suspended = False, fb_boost = UNBOOST,
      boost_start_time = 0, ib_adj_duration_ms = 0, ib_duration_ms = 0, ib_freq = [0, 0],
      enabled = 0, migration_boost_ms = 0, migration_load_threshold = 0,
      ib_nr_cpus_boosted = 0, ib_nr_cpus_to_boost = 0, policy_updates = []\<rparr>"

text \<open>
  What can happen to the driver after start-up: a notifier is called, a queued work item
  or an armed timer runs its handler (the workqueue takes it off the queue first), the
  sync thread of a CPU with a pending request makes one pass, or a sysfs attribute is
  written. The parameters are what the kernel supplies at that moment (the time, the
  set of online CPUs, the policies).
\<close>

datatype action =
    Policy_notifier u64 policy_event cpufreq_policy
  | Input_event
  | Boost_work u32 u64
  | Ib_restore_work "nat \<Rightarrow> bool" nat
  | Fb_boost_work "nat \<Rightarrow> bool"
  | Fb_notifier fb_event int
  | Mig_boost_rem nat
  | Migration_notifier bool migration_notify_data
  | Sync_thread "nat \<Rightarrow> cpufreq_policy option" "nat \<Rightarrow> bool" nat
  | Write_enabled "nat \<Rightarrow> bool" "u32 list" nat
  | Write_ib_freqs "u32 list" nat
  | Write_ib_duration_ms "u32 list" nat
  | Write_load_based_syncs "u32 list" nat
  | Write_migration_boost_ms "u32 list" nat
  | Write_migration_load_threshold "u32 list" nat

fun possible :: "action \<Rightarrow> state \<Rightarrow> bool" where
  "possible (Policy_notifier now val policy) s = (policy_cpu policy < length (boost_info s))"
| "possible (Boost_work n_online now) s = boost_work s"
| "possible (Ib_restore_work online k) s =
     (k < length (boost_info s) \<and> ib_restore_work (per_cpu s k) \<noteq> None)"
| "possible (Fb_boost_work online) s = (fb_boost_work s \<noteq> None)"
| "possible (Mig_boost_rem k) s =
     (k < length (boost_info s) \<and> mig_boost_rem (per_cpu s k) \<noteq> None)"
| "possible (Migration_notifier is_current mnd) s = (mnd_dest_cpu mnd < length (boost_info s))"
| "possible (Sync_thread get_policy online dest_cpu) s =
     (dest_cpu < length (boost_info s) \<and> pending (per_cpu s dest_cpu))"
| "possible _ s = True"

fun perform :: "action \<Rightarrow> state \<Rightarrow> state" where
  "perform (Policy_notifier now val policy) s = snd (do_cpu_boost now val policy s)"
| "perform Input_event s = cpu_ib_input_event s"
| "perform (Boost_work n_online now) s = ib_boost_main n_online now (s\<lparr>boost_work := False\<rparr>)"
| "perform (Ib_restore_work online k) s =
     ib_restore_main online k (set_per_cpu k (\<lambda>b. b\<lparr>ib_restore_work := None\<rparr>) s)"
| "perform (Fb_boost_work online) s = fb_boost_main online (s\<lparr>fb_boost_work := None\<rparr>)"
| "perform (Fb_notifier val blank) s = fb_blank_boost val blank s"
| "perform (Mig_boost_rem k) s =
     do_mig_boost_rem k (set_per_cpu k (\<lambda>b. b\<lparr>mig_boost_rem := None\<rparr>) s)"
| "perform (Migration_notifier is_current mnd) s = boost_migration_notify is_current mnd s"
| "perform (Sync_thread get_policy online dest_cpu) s =
     boost_mig_sync_thread get_policy online dest_cpu s"
| "perform (Write_enabled online scanned sz) s = snd (enabled_write online scanned sz s)"
| "perform (Write_ib_freqs scanned sz) s = snd (ib_freqs_write scanned sz s)"
| "perform (Write_ib_duration_ms scanned sz) s = snd (ib_duration_ms_write scanned sz s)"
| "perform (Write_load_based_syncs scanned sz) s = snd (load_based_syncs_write scanned sz s)"
| "perform (Write_migration_boost_ms scanned sz) s =
     snd (migration_boost_ms_write scanned sz s)"
| "perform (Write_migration_load_threshold scanned sz) s =
     snd (migration_load_threshold_write scanned sz s)"

text \<open>The states the driver can be in on a machine with \<open>n\<close> possible CPUs.\<close>

inductive reachable :: "nat \<Rightarrow> state \<Rightarrow> bool" for n :: nat where
  start: "reachable n (cpu_ib_init n)"
| step: "reachable n s \<Longrightarrow> possible a s \<Longrightarrow> reachable n (perform a s)"

text \<open>A sequence of actions: whether each can happen in turn, and the state it leads to.\<close>

fun all_possible :: "action list \<Rightarrow> state \<Rightarrow> bool" where
  "all_possible [] s = True"
| "all_possible (a # as) s = (possible a s \<and> all_possible as (perform a s))"

fun perform_all :: "action list \<Rightarrow> state \<Rightarrow> state" where
  "perform_all [] s = s"
| "perform_all (a # as) s = perform_all as (perform a s)"

text \<open>
  The notifier call admits a CPU to the input-boost cycle when it counts one more boosted
  CPU; \<open>admissions\<close> lists the CPUs admitted along a sequence of actions.
\<close>

definition admits :: "u64 \<Rightarrow> policy_event \<Rightarrow> cpufreq_policy \<Rightarrow> state \<Rightarrow> bool" where
  "admits now val policy s \<longleftrightarrow>
     ib_nr_cpus_boosted (snd (do_cpu_boost now val policy s)) \<noteq> ib_nr_cpus_boosted s"

fun admitted_cpu :: "action \<Rightarrow> state \<Rightarrow> nat list" where
  "admitted_cpu (Policy_notifier now val policy) s =
     (if admits now val policy s then [policy_cpu policy] else [])"
| "admitted_cpu _ s = []"

fun admissions :: "action list \<Rightarrow> state \<Rightarrow> nat list" where
  "admissions [] s = []"
| "admissions (a # as) s = admitted_cpu a s @ admissions as (perform a s)"

fun is_boost_work :: "action \<Rightarrow> bool" where
  "is_boost_work (Boost_work n_online now) = True"
| "is_boost_work _ = False"

section \<open>Example data\<close>

text \<open>A four-core machine, 300 MHz to 2 GHz, every CPU online, used to run the driver on
  concrete inputs.\<close>

definition demo_policy :: "nat \<Rightarrow> u32 \<Rightarrow> u32 \<Rightarrow> cpufreq_policy" where
  "demo_policy c cur_khz min_khz =
     \<lparr>policy_cpu = c, policy_min = min_khz, policy_max = 2000000, policy_cur = cur_khz,
      cpuinfo_min_freq = 300000\<rparr>"

definition demo_get_policy :: "u32 \<Rightarrow> nat \<Rightarrow> cpufreq_policy option" where
  "demo_get_policy src_cur c =
     (if c = 0 then Some (demo_policy 0 src_cur 300000)
      else if c < 4 then Some (demo_policy c 300000 300000) else None)"

definition all_online :: "nat \<Rightarrow> bool" where
  "all_online c = True"

definition only_cpu0_online :: "nat \<Rightarrow> bool" where
  "only_cpu0_online c = (c = 0)"

definition demo_enabled :: state where
  "demo_enabled = (cpu_ib_init 4)\<lparr>enabled := 1, migration_boost_ms := 20\<rparr>"

definition demo_low_request :: state where
  "demo_low_request =
     set_per_cpu 2 (\<lambda>b. b\<lparr>pending := True, src_cpu := 0, task_load := 10,
                           migration_freq := 1500000, mig_boost_rem := Some 20\<rparr>) demo_enabled"

definition cpu2_offline :: "nat \<Rightarrow> bool" where
  "cpu2_offline c = (c \<noteq> 2)"

text \<open>A task moving from CPU0 to CPU2 with a load of 80 percent.\<close>

definition demo_migration :: migration_notify_data where
  "demo_migration = \<lparr>mnd_src_cpu = 0, mnd_dest_cpu = 2, mnd_load = 80\<rparr>"

definition demo_load_gated :: state where
  "demo_load_gated = demo_enabled\<lparr>load_based_syncs := True, migration_load_threshold := 50\<rparr>"

text \<open>Input boost configured: 1.5 GHz for CPU0, 1.2 GHz for the others, for 1400 ms.\<close>

definition demo_input :: state where
  "demo_input = demo_enabled\<lparr>ib_duration_ms := 1400, ib_freq := [1500000, 1200000]\<rparr>"

text \<open>
  The driver is switched on and configured, then a touch starts an input-boost cycle at
  time 5000 with CPU0 the only CPU online.
\<close>

definition demo_cycle_actions :: "action list" where
  "demo_cycle_actions =
     [Write_enabled only_cpu0_online [1] 2, Write_ib_freqs [1500000, 1200000] 16,
      Write_ib_duration_ms [1400] 5, Input_event, Boost_work 1 5000]"

definition demo_cycle_started :: state where
  "demo_cycle_started = perform_all demo_cycle_actions (cpu_ib_init 4)"

text \<open>The display is unblanked; the framebuffer work runs at once and again after the
  cool-down.\<close>

definition demo_display_actions :: "action list" where
  "demo_display_actions =
     [Fb_notifier FB_EVENT_BLANK FB_BLANK_UNBLANK, Fb_boost_work only_cpu0_online,
      Fb_boost_work only_cpu0_online]"

text \<open>The driver is switched off in the middle of the cycle.\<close>

definition demo_cycle_disabled :: state where
  "demo_cycle_disabled = perform (Write_enabled only_cpu0_online [0] 2) demo_cycle_started"

text \<open>The display has just been unblanked during the input-boost cycle.\<close>

definition demo_display_on :: state where
  "demo_display_on = perform_all (take 1 demo_display_actions) demo_cycle_started"

text \<open>The touch has been noticed but the boost work has not run yet; and three policy
  notifier calls that follow the start of the cycle: twice for CPU1, once for CPU2.\<close>

definition demo_touched :: state where
  "demo_touched = perform_all (take 4 demo_cycle_actions) (cpu_ib_init 4)"

definition demo_notifier_calls :: "action list" where
  "demo_notifier_calls =
     [Policy_notifier 5100 CPUFREQ_ADJUST (demo_policy 1 300000 300000),
      Policy_notifier 5200 CPUFREQ_ADJUST (demo_policy 1 300000 1200000),
      Policy_notifier 5300 CPUFREQ_ADJUST (demo_policy 2 300000 300000)]"

fun is_policy_notifier :: "action \<Rightarrow> bool" where
  "is_policy_notifier (Policy_notifier now val policy) = True"
| "is_policy_notifier _ = False"

text \<open>
  \<^verbatim>\<open>enabled_write\<close> stores the new value of \<open>enabled\<close> (line 511) before it calls
  \<^verbatim>\<open>stop_remove_all_boosts\<close> (line 514), and a policy notifier call on another CPU can
  run in between. The states a notifier call can see are therefore the reachable ones and
  those in which only the store has happened.
\<close>

inductive observable :: "nat \<Rightarrow> state \<Rightarrow> bool" for n :: nat where
  settled: "reachable n s \<Longrightarrow> observable n s"
| stored: "reachable n s \<Longrightarrow> observable n (s\<lparr>enabled := data\<rparr>)"

text \<open>The driver has been switched off in mid-cycle and CPU1 has then been admitted.\<close>

definition demo_admitted_disabled :: state where
  "demo_admitted_disabled =
     perform (Policy_notifier 5100 CPUFREQ_ADJUST (demo_policy 1 300000 1200000))
       demo_cycle_disabled"

text \<open>
  During the cycle the migration boost is configured and a task moves from CPU0, running
  at 1.2 GHz, to CPU2; the driver is switched off before the sync thread of CPU2 has
  looked at its mailbox; then the sync thread makes its pass.
\<close>

definition demo_mailbox_actions :: "action list" where
  "demo_mailbox_actions =
     [Write_migration_boost_ms [20] 3, Migration_notifier False demo_migration,
      Write_enabled all_online [0] 2, Sync_thread (demo_get_policy 1200000) all_online 2]"

definition demo_mailbox_applied :: state where
  "demo_mailbox_applied = perform_all demo_mailbox_actions demo_cycle_started"

text \<open>The display has just been unblanked and 0 has been stored in \<open>enabled\<close>, before
  \<^verbatim>\<open>stop_remove_all_boosts\<close> runs.\<close>

definition demo_disabling :: state where
  "demo_disabling = demo_display_on\<lparr>enabled := 0\<rparr>"

text \<open>During the cycle a migration boost is applied to CPU2; then the display is
  unblanked, and the policy notifier is called while the framebuffer boost is active and
  while it cools down.\<close>

definition demo_migration_boost_actions :: "action list" where
  "demo_migration_boost_actions =
     [Write_migration_boost_ms [20] 3, Migration_notifier False demo_migration,
      Sync_thread (demo_get_policy 1200000) all_online 2]"

definition demo_cycle_and_migration :: state where
  "demo_cycle_and_migration = perform_all demo_migration_boost_actions demo_cycle_started"

definition demo_calls_active :: "action list" where
  "demo_calls_active = [Policy_notifier 5010 CPUFREQ_ADJUST (demo_policy 0 1500000 1500000)]"

definition demo_calls_cooldown :: "action list" where
  "demo_calls_cooldown =
     [Policy_notifier 5500 CPUFREQ_ADJUST (demo_policy 1 300000 300000),
      Policy_notifier 5600 CPUFREQ_ADJUST (demo_policy 2 300000 1200000)]"

definition demo_display_window :: "action list" where
  "demo_display_window =
     Fb_notifier FB_EVENT_BLANK FB_BLANK_UNBLANK # demo_calls_active @
     Fb_boost_work only_cpu0_online # demo_calls_cooldown @ [Fb_boost_work all_online]"

section \<open>Basic facts\<close>

lemma per_cpu_set_per_cpu:
  "per_cpu (set_per_cpu c f s) k =
     (if k = c \<and> c < length (boost_info s) then f (per_cpu s c) else per_cpu s k)"
  by (cases "k = c") (auto simp add: per_cpu_def set_per_cpu_def list_update_beyond not_less)

lemma set_per_cpu_fields [simp]:
  "length (boost_info (set_per_cpu c f s)) = length (boost_info s)"
  "policy_updates (set_per_cpu c f s) = policy_updates s"
  "migration_boost_ms (set_per_cpu c f s) = migration_boost_ms s"
  "enabled (set_per_cpu c f s) = enabled s"
  "fb_boost (set_per_cpu c f s) = fb_boost s"
  "ib_nr_cpus_boosted (set_per_cpu c f s) = ib_nr_cpus_boosted s"
  "ib_nr_cpus_to_boost (set_per_cpu c f s) = ib_nr_cpus_to_boost s"
  "ib_freq (set_per_cpu c f s) = ib_freq s"
  "ib_running (set_per_cpu c f s) = ib_running s"
  by (simp_all add: set_per_cpu_def)

lemma cpufreq_update_policy_fields [simp]:
  "boost_info (cpufreq_update_policy c s) = boost_info s"
  "per_cpu (cpufreq_update_policy c s) k = per_cpu s k"
  "policy_updates (cpufreq_update_policy c s) = policy_updates s @ [c]"
  "migration_boost_ms (cpufreq_update_policy c s) = migration_boost_ms s"
  "enabled (cpufreq_update_policy c s) = enabled s"
  "fb_boost (cpufreq_update_policy c s) = fb_boost s"
  "ib_nr_cpus_boosted (cpufreq_update_policy c s) = ib_nr_cpus_boosted s"
  "ib_nr_cpus_to_boost (cpufreq_update_policy c s) = ib_nr_cpus_to_boost s"
  "ib_running (cpufreq_update_policy c s) = ib_running s"
  by (simp_all add: cpufreq_update_policy_def per_cpu_def)

text \<open>Sequences of possible actions lead from reachable states to reachable states.\<close>

lemma reachable_perform_all:
  "reachable n s \<Longrightarrow> all_possible as s \<Longrightarrow> reachable n (perform_all as s)"
proof (induction as arbitrary: s)
  case Nil
  then show ?case by simp
next
  case (Cons a as)
  from Cons.prems have "reachable n (perform a s)"
    by (simp add: reachable.step)
  with Cons show ?case by simp
qed

lemma demo_states_reachable:
  "reachable 4 demo_cycle_started" "reachable 4 demo_cycle_disabled"
proof -
  have "reachable 4 (perform_all demo_cycle_actions (cpu_ib_init 4))"
    by (rule reachable_perform_all [OF reachable.start]) code_simp
  then show r: "reachable 4 demo_cycle_started"
    by (simp only: demo_cycle_started_def)
  have "possible (Write_enabled only_cpu0_online [0] 2) demo_cycle_started"
    by simp
  with r have "reachable 4 (perform (Write_enabled only_cpu0_online [0] 2) demo_cycle_started)"
    by (rule reachable.step)
  then show "reachable 4 demo_cycle_disabled"
    by (simp only: demo_cycle_disabled_def)
qed

section \<open>The migration sync thread\<close>

text \<open>
  C8. A request whose candidate frequency, the larger of
  \<open>dest.max * task_load / 100\<close> and the source's current frequency, is not above the
  destination's hardware minimum is dropped: the pass only clears \<open>pending\<close>. On every
  CPU the migration frequency and the removal timer are what they were, and no policy
  update is requested.
\<close>

theorem mig_sync_low_request_discarded:
  assumes "get_policy (src_cpu (per_cpu s dest_cpu)) = Some src_policy"
    and "get_policy dest_cpu = Some dest_policy"
    and "max (policy_max dest_policy * task_load (per_cpu s dest_cpu) div 100)
             (policy_cur src_policy) \<le> cpuinfo_min_freq dest_policy"
  shows "boost_mig_sync_thread get_policy online dest_cpu s =
           set_per_cpu dest_cpu (\<lambda>b. b\<lparr>pending := False\<rparr>) s \<and>
         (\<forall>c. migration_freq (per_cpu (boost_mig_sync_thread get_policy online dest_cpu s) c) =
                migration_freq (per_cpu s c) \<and>
              mig_boost_rem (per_cpu (boost_mig_sync_thread get_policy online dest_cpu s) c) =
                mig_boost_rem (per_cpu s c)) \<and>
         policy_updates (boost_mig_sync_thread get_policy online dest_cpu s) = policy_updates s"
proof -
  have eq: "boost_mig_sync_thread get_policy online dest_cpu s =
              set_per_cpu dest_cpu (\<lambda>b. b\<lparr>pending := False\<rparr>) s"
    using assms by (simp add: boost_mig_sync_thread_def per_cpu_set_per_cpu Let_def)
  show ?thesis
    unfolding eq by (simp add: per_cpu_set_per_cpu)
qed

theorem mig_sync_low_request_discarded_witness:
  "demo_get_policy 250000 (src_cpu (per_cpu demo_low_request 2)) =
     Some (demo_policy 0 250000 300000) \<and>
   demo_get_policy 250000 2 = Some (demo_policy 2 300000 300000) \<and>
   max (policy_max (demo_policy 2 300000 300000) * task_load (per_cpu demo_low_request 2)
          div 100) (policy_cur (demo_policy 0 250000 300000))
     \<le> cpuinfo_min_freq (demo_policy 2 300000 300000) \<and>
   boost_mig_sync_thread (demo_get_policy 250000) all_online 2 demo_low_request =
     set_per_cpu 2 (\<lambda>b. b\<lparr>pending := False\<rparr>) demo_low_request \<and>
   migration_freq (per_cpu (boost_mig_sync_thread (demo_get_policy 250000) all_online 2
      demo_low_request) 2) = 1500000 \<and>
   mig_boost_rem (per_cpu (boost_mig_sync_thread (demo_get_policy 250000) all_online 2
      demo_low_request) 2) = Some 20 \<and>
   policy_updates (boost_mig_sync_thread (demo_get_policy 250000) all_online 2
      demo_low_request) = []"
proof -
  have h1: "demo_get_policy 250000 (src_cpu (per_cpu demo_low_request 2)) =
     Some (demo_policy 0 250000 300000)"
    by code_simp
  have h2: "demo_get_policy 250000 2 = Some (demo_policy 2 300000 300000)"
    by code_simp
  have h3: "max (policy_max (demo_policy 2 300000 300000) * task_load (per_cpu demo_low_request 2)
          div 100) (policy_cur (demo_policy 0 250000 300000))
     \<le> cpuinfo_min_freq (demo_policy 2 300000 300000)"
    by code_simp
  have old: "migration_freq (per_cpu demo_low_request 2) = 1500000"
    "mig_boost_rem (per_cpu demo_low_request 2) = Some 20"
    "policy_updates demo_low_request = []"
    by code_simp+
  note c = mig_sync_low_request_discarded [OF h1 h2 h3, of all_online]
  show ?thesis
    using h1 h2 h3 c old by metis
qed

text \<open>The pass of the sync thread when the request is applied.\<close>

lemma mig_sync_applied:
  assumes "get_policy (src_cpu (per_cpu s dest_cpu)) = Some src_policy"
    and "get_policy dest_cpu = Some dest_policy"
    and "cpuinfo_min_freq dest_policy <
           max (policy_max dest_policy * task_load (per_cpu s dest_cpu) div 100)
               (policy_cur src_policy)"
    and "dest_cpu < length (boost_info s)"
  shows "migration_freq (per_cpu (boost_mig_sync_thread get_policy online dest_cpu s) dest_cpu) =
           (if online dest_cpu then
              max (policy_max dest_policy * task_load (per_cpu s dest_cpu) div 100)
                  (policy_cur src_policy)
            else 0)"
    and "mig_boost_rem (per_cpu (boost_mig_sync_thread get_policy online dest_cpu s) dest_cpu) =
           (if online dest_cpu then Some (migration_boost_ms s) else None)"
    and "policy_updates (boost_mig_sync_thread get_policy online dest_cpu s) =
           policy_updates s @
           (if online (src_cpu (per_cpu s dest_cpu)) then [src_cpu (per_cpu s dest_cpu)] else []) @
           (if online dest_cpu then [dest_cpu] else [])"
proof -
  define req where
    "req = max (policy_max dest_policy * task_load (per_cpu s dest_cpu) div 100)
               (policy_cur src_policy)"
  have high: "\<not> req \<le> cpuinfo_min_freq dest_policy"
    using assms(3) by (simp only: req_def not_le)
  have run: "boost_mig_sync_thread get_policy online dest_cpu s =
      (let s1 = set_per_cpu dest_cpu (\<lambda>b. b\<lparr>pending := False\<rparr>) s;
           s2 = set_per_cpu dest_cpu (\<lambda>b. b\<lparr>mig_boost_rem := cancel_delayed_work_sync\<rparr>) s1;
           s3 = set_per_cpu dest_cpu (\<lambda>b. b\<lparr>migration_freq := req\<rparr>) s2;
           s4 = (if online (src_cpu (per_cpu s dest_cpu))
                 then cpufreq_update_policy (src_cpu (per_cpu s dest_cpu)) s3 else s3)
       in if online dest_cpu then
            set_per_cpu dest_cpu
              (\<lambda>b. b\<lparr>mig_boost_rem := queue_delayed_work (migration_boost_ms s4)\<rparr>)
              (cpufreq_update_policy dest_cpu s4)
          else set_per_cpu dest_cpu (\<lambda>b. b\<lparr>migration_freq := 0\<rparr>) s4)"
    using assms(1,2,4) high
    by (simp add: boost_mig_sync_thread_def per_cpu_set_per_cpu Let_def req_def [symmetric]
        del: max.bounded_iff)
  show "migration_freq (per_cpu (boost_mig_sync_thread get_policy online dest_cpu s) dest_cpu) =
           (if online dest_cpu then
              max (policy_max dest_policy * task_load (per_cpu s dest_cpu) div 100)
                  (policy_cur src_policy)
            else 0)"
    using assms(4) unfolding run req_def [symmetric]
    by (simp add: per_cpu_set_per_cpu Let_def)
  show "mig_boost_rem (per_cpu (boost_mig_sync_thread get_policy online dest_cpu s) dest_cpu) =
           (if online dest_cpu then Some (migration_boost_ms s) else None)"
    using assms(4) unfolding run
    by (simp add: per_cpu_set_per_cpu Let_def queue_delayed_work_def cancel_delayed_work_sync_def)
  show "policy_updates (boost_mig_sync_thread get_policy online dest_cpu s) =
           policy_updates s @
           (if online (src_cpu (per_cpu s dest_cpu)) then [src_cpu (per_cpu s dest_cpu)] else []) @
           (if online dest_cpu then [dest_cpu] else [])"
    unfolding run by (simp add: Let_def)
qed

text \<open>
  C9. When the sync thread applies a request (both policies could be read and the candidate
  frequency is above the destination's hardware minimum) and the destination CPU is
  offline, the pass ends with the destination's migration frequency 0 and its removal timer
  not armed; the only policy update requested is the one for the source CPU, if it is online.
\<close>

theorem mig_sync_offline_destination:
  assumes "dest_cpu < length (boost_info s)"
    and "get_policy (src_cpu (per_cpu s dest_cpu)) = Some src_policy"
    and "get_policy dest_cpu = Some dest_policy"
    and "cpuinfo_min_freq dest_policy <
           max (policy_max dest_policy * task_load (per_cpu s dest_cpu) div 100)
               (policy_cur src_policy)"
    and "\<not> online dest_cpu"
  shows "migration_freq (per_cpu (boost_mig_sync_thread get_policy online dest_cpu s) dest_cpu) = 0 \<and>
         mig_boost_rem (per_cpu (boost_mig_sync_thread get_policy online dest_cpu s) dest_cpu) = None \<and>
         policy_updates (boost_mig_sync_thread get_policy online dest_cpu s) =
           policy_updates s @
           (if online (src_cpu (per_cpu s dest_cpu)) then [src_cpu (per_cpu s dest_cpu)] else [])"
  using mig_sync_applied [OF assms(2) assms(3) assms(4) assms(1), of online] assms(5)
  by simp

theorem mig_sync_offline_destination_witness:
  "(2 :: nat) < length (boost_info demo_low_request) \<and>
   demo_get_policy 1200000 (src_cpu (per_cpu demo_low_request 2)) =
     Some (demo_policy 0 1200000 300000) \<and>
   demo_get_policy 1200000 2 = Some (demo_policy 2 300000 300000) \<and>
   cpuinfo_min_freq (demo_policy 2 300000 300000) <
     max (policy_max (demo_policy 2 300000 300000) * task_load (per_cpu demo_low_request 2)
            div 100) (policy_cur (demo_policy 0 1200000 300000)) \<and>
   \<not> cpu2_offline 2 \<and>
   migration_freq (per_cpu demo_low_request 2) = 1500000 \<and>
   mig_boost_rem (per_cpu demo_low_request 2) = Some 20 \<and>
   migration_freq (per_cpu (boost_mig_sync_thread (demo_get_policy 1200000) cpu2_offline 2
      demo_low_request) 2) = 0 \<and>
   mig_boost_rem (per_cpu (boost_mig_sync_thread (demo_get_policy 1200000) cpu2_offline 2
      demo_low_request) 2) = None \<and>
   policy_updates (boost_mig_sync_thread (demo_get_policy 1200000) cpu2_offline 2
      demo_low_request) = [0]"
proof -
  have h0: "(2 :: nat) < length (boost_info demo_low_request)"
    by code_simp
  have h1: "demo_get_policy 1200000 (src_cpu (per_cpu demo_low_request 2)) =
     Some (demo_policy 0 1200000 300000)"
    by code_simp
  have h2: "demo_get_policy 1200000 2 = Some (demo_policy 2 300000 300000)"
    by code_simp
  have h3: "cpuinfo_min_freq (demo_policy 2 300000 300000) <
     max (policy_max (demo_policy 2 300000 300000) * task_load (per_cpu demo_low_request 2)
            div 100) (policy_cur (demo_policy 0 1200000 300000))"
    by code_simp
  have h4: "\<not> cpu2_offline 2"
    by code_simp
  have old: "migration_freq (per_cpu demo_low_request 2) = 1500000"
    "mig_boost_rem (per_cpu demo_low_request 2) = Some 20"
    by code_simp+
  have src: "policy_updates demo_low_request @
      (if cpu2_offline (src_cpu (per_cpu demo_low_request 2))
       then [src_cpu (per_cpu demo_low_request 2)] else []) = [0]"
    by code_simp
  note c = mig_sync_offline_destination
    [where s = demo_low_request and dest_cpu = 2 and get_policy = "demo_get_policy 1200000"
       and online = cpu2_offline, OF h0 h1 h2 h3 h4]
  show ?thesis
    using h0 h1 h2 h3 h4 old c unfolding src by blast
qed

text \<open>
  C1, as the driver has it. The notifier stores the reported load only when load-based
  syncs are on, and 0 otherwise. For an event the notifier accepts, with both policies
  readable, the candidate above the destination's hardware minimum and the destination
  online, the sync thread sets the migration frequency to the larger of
  \<open>dest.max * stored_load / 100\<close> and the source's current frequency, and arms the
  removal timer with \<open>migration_boost_ms\<close>. With load-based syncs off the candidate is
  therefore the source's current frequency, whatever load was reported.
\<close>

theorem migration_boost_applied:
  assumes "enabled s \<noteq> 0" and "migration_boost_ms s \<noteq> 0"
    and "\<not> suspended s" and "fb_boost s = UNBOOST"
    and "load_based_syncs s \<longrightarrow>
           migration_load_threshold s < word_of_int (mnd_load mnd) \<and>
           0 \<le> mnd_load mnd \<and> mnd_load mnd \<le> 100"
    and "mnd_dest_cpu mnd < length (boost_info s)"
    and "get_policy (mnd_src_cpu mnd) = Some src_policy"
    and "get_policy (mnd_dest_cpu mnd) = Some dest_policy"
    and "cpuinfo_min_freq dest_policy <
           max (policy_max dest_policy *
                  (if load_based_syncs s then word_of_int (mnd_load mnd) else 0) div 100)
               (policy_cur src_policy)"
    and "online (mnd_dest_cpu mnd)"
  shows "(let s1 = boost_migration_notify False mnd s;
              s2 = boost_mig_sync_thread get_policy online (mnd_dest_cpu mnd) s1
          in task_load (per_cpu s1 (mnd_dest_cpu mnd)) =
               (if load_based_syncs s then word_of_int (mnd_load mnd) else 0) \<and>
             migration_freq (per_cpu s2 (mnd_dest_cpu mnd)) =
               max (policy_max dest_policy *
                      (if load_based_syncs s then word_of_int (mnd_load mnd) else 0) div 100)
                   (policy_cur src_policy) \<and>
             mig_boost_rem (per_cpu s2 (mnd_dest_cpu mnd)) = Some (migration_boost_ms s) \<and>
             (\<not> load_based_syncs s \<longrightarrow>
                migration_freq (per_cpu s2 (mnd_dest_cpu mnd)) = policy_cur src_policy))"
proof -
  define s1 where "s1 = boost_migration_notify False mnd s"
  have s1: "s1 = set_per_cpu (mnd_dest_cpu mnd)
             (\<lambda>b. b\<lparr>pending := True, src_cpu := mnd_src_cpu mnd,
                    task_load := (if load_based_syncs s then word_of_int (mnd_load mnd) else 0)\<rparr>) s"
    using assms(1-5) by (auto simp add: s1_def boost_migration_notify_def not_le [symmetric])
  have b: "per_cpu s1 (mnd_dest_cpu mnd) =
      (per_cpu s (mnd_dest_cpu mnd))\<lparr>pending := True, src_cpu := mnd_src_cpu mnd,
         task_load := (if load_based_syncs s then word_of_int (mnd_load mnd) else 0)\<rparr>"
    using assms(6) by (simp add: s1 per_cpu_set_per_cpu)
  have len: "mnd_dest_cpu mnd < length (boost_info s1)"
    using assms(6) by (simp add: s1)
  have ms: "migration_boost_ms s1 = migration_boost_ms s"
    by (simp add: s1)
  have src: "get_policy (src_cpu (per_cpu s1 (mnd_dest_cpu mnd))) = Some src_policy"
    using assms(7) by (simp add: b)
  have high: "cpuinfo_min_freq dest_policy <
      max (policy_max dest_policy * task_load (per_cpu s1 (mnd_dest_cpu mnd)) div 100)
          (policy_cur src_policy)"
    using assms(9) by (simp add: b)
  note ap = mig_sync_applied(1,2) [OF src assms(8) high len, of online]
  show ?thesis
    using ap assms(10) by (simp add: Let_def s1_def [symmetric] b ms)
qed

theorem migration_boost_applied_witness:
  "enabled demo_enabled \<noteq> 0 \<and> migration_boost_ms demo_enabled \<noteq> 0 \<and>
   \<not> suspended demo_enabled \<and> fb_boost demo_enabled = UNBOOST \<and>
   \<not> load_based_syncs demo_enabled \<and>
   mnd_dest_cpu demo_migration < length (boost_info demo_enabled) \<and>
   demo_get_policy 1200000 (mnd_src_cpu demo_migration) = Some (demo_policy 0 1200000 300000) \<and>
   demo_get_policy 1200000 (mnd_dest_cpu demo_migration) = Some (demo_policy 2 300000 300000) \<and>
   all_online (mnd_dest_cpu demo_migration) \<and>
   task_load (per_cpu (boost_migration_notify False demo_migration demo_enabled) 2) = 0 \<and>
   migration_freq (per_cpu (boost_mig_sync_thread (demo_get_policy 1200000) all_online 2
      (boost_migration_notify False demo_migration demo_enabled)) 2) = 1200000 \<and>
   mig_boost_rem (per_cpu (boost_mig_sync_thread (demo_get_policy 1200000) all_online 2
      (boost_migration_notify False demo_migration demo_enabled)) 2) = Some 20"
proof -
  have h1: "enabled demo_enabled \<noteq> 0" and h2: "migration_boost_ms demo_enabled \<noteq> 0"
    and h3: "\<not> suspended demo_enabled" and h4: "fb_boost demo_enabled = UNBOOST"
    and off: "\<not> load_based_syncs demo_enabled"
    by code_simp+
  have h5: "load_based_syncs demo_enabled \<longrightarrow>
      migration_load_threshold demo_enabled < word_of_int (mnd_load demo_migration) \<and>
      0 \<le> mnd_load demo_migration \<and> mnd_load demo_migration \<le> 100"
    using off by simp
  have h6: "mnd_dest_cpu demo_migration < length (boost_info demo_enabled)"
    by code_simp
  have h7: "demo_get_policy 1200000 (mnd_src_cpu demo_migration) =
      Some (demo_policy 0 1200000 300000)"
    and h8: "demo_get_policy 1200000 (mnd_dest_cpu demo_migration) =
      Some (demo_policy 2 300000 300000)"
    by code_simp+
  have h9: "cpuinfo_min_freq (demo_policy 2 300000 300000) <
      max (policy_max (demo_policy 2 300000 300000) *
             (if load_based_syncs demo_enabled then word_of_int (mnd_load demo_migration) else 0)
             div 100)
          (policy_cur (demo_policy 0 1200000 300000))"
    by code_simp
  have h10: "all_online (mnd_dest_cpu demo_migration)"
    by code_simp
  have v: "mnd_dest_cpu demo_migration = 2" "migration_boost_ms demo_enabled = 20"
    "policy_cur (demo_policy 0 1200000 300000) = 1200000"
    by code_simp+
  note c = migration_boost_applied
    [where s = demo_enabled and mnd = demo_migration and get_policy = "demo_get_policy 1200000"
       and online = all_online, OF h1 h2 h3 h4 h5 h6 h7 h8 h9 h10, unfolded Let_def v]
  show ?thesis
    using h1 h2 h3 h4 off h6 h7 h8 h10 c off by simp
qed

text \<open>The scenario of C1 on the driver: load-based syncs off, CPU0 at 1.2 GHz, CPU2 with a
  maximum of 2 GHz and a hardware minimum of 300 MHz, a reported load of 80. The floor set
  is 1.2 GHz, not 1.6 GHz.\<close>

theorem migration_scenario_counterexample:
  "\<not> load_based_syncs demo_enabled \<and> mnd_load demo_migration = 80 \<and>
   demo_get_policy 1200000 0 = Some (demo_policy 0 1200000 300000) \<and>
   policy_cur (demo_policy 0 1200000 300000) = 1200000 \<and>
   demo_get_policy 1200000 2 = Some (demo_policy 2 300000 300000) \<and>
   policy_max (demo_policy 2 300000 300000) = 2000000 \<and>
   cpuinfo_min_freq (demo_policy 2 300000 300000) = 300000 \<and>
   migration_freq (per_cpu (boost_mig_sync_thread (demo_get_policy 1200000) all_online 2
      (boost_migration_notify False demo_migration demo_enabled)) 2) = 1200000 \<and>
   migration_freq (per_cpu (boost_mig_sync_thread (demo_get_policy 1200000) all_online 2
      (boost_migration_notify False demo_migration demo_enabled)) 2) \<noteq> 1600000"
  by code_simp

lemma migration_scenario_load_gated:
  "migration_freq (per_cpu (boost_mig_sync_thread (demo_get_policy 1200000) all_online 2
      (boost_migration_notify False demo_migration demo_load_gated)) 2) = 1600000"
  by code_simp

section \<open>The sysfs interface\<close>




section \<open>The input-boost cycle\<close>

lemma adj_duration_no_overflow:
  fixes d n :: u32
  assumes "unat d * 3 < 2 ^ 32" and "unat n + 3 < 2 ^ 32"
  shows "unat (d * 3 div (3 + n)) = unat d * 3 div (3 + unat n)"
    and "unat (d * 3 div (3 + n) + 10) = unat (d * 3 div (3 + n)) + 10"
proof -
  have m: "unat (d * 3) = unat d * 3"
    using assms(1) by (simp add: unat_word_ariths)
  have a: "unat (3 + n) = 3 + unat n"
    using assms(2) by (simp add: unat_word_ariths)
  show q: "unat (d * 3 div (3 + n)) = unat d * 3 div (3 + unat n)"
    by (simp add: unat_div m a)
  have "unat d * 3 div (3 + unat n) \<le> unat d * 3 div 3"
    by (rule div_le_mono2) simp_all
  then have "unat (d * 3 div (3 + n)) + 10 < 2 ^ 32"
    using assms(1) unfolding q by simp
  then show "unat (d * 3 div (3 + n) + 10) = unat (d * 3 div (3 + n)) + 10"
    by (simp add: unat_word_ariths)
qed

lemma boost_cpu0_result:
  assumes "0 < length (boost_info s)"
  shows "boost_cpu0 now d s =
     s\<lparr>boost_info := (boost_info s)[0 := (boost_info s ! 0)\<lparr>boost_state := BOOST,
                                           ib_restore_work := Some d\<rparr>],
       ib_nr_cpus_boosted := ib_nr_cpus_boosted s + 1,
       policy_updates := policy_updates s @ [0],
       boost_start_time := now\<rparr>"
  using assms
  by (simp add: boost_cpu0_def set_per_cpu_def cpufreq_update_policy_def queue_delayed_work_def
      Let_def)

text \<open>
  C7. The cycle-start worker targets two CPUs when one CPU is online and one CPU otherwise,
  and sets the adjusted duration to \<open>ib_duration_ms * 3 / (3 + n_online)\<close> in the
  driver's unsigned 32-bit arithmetic; whenever the product fits in 32 bits that is the
  quotient of the natural numbers, and adding the 10 ms does not wrap. CPU0 is boosted at
  once: its state is \<open>BOOST\<close>, it is counted as the one boosted CPU, the start time is
  recorded, a policy update for CPU0 is requested, and its restore timer is armed with the
  adjusted duration plus 10 ms. No other CPU's record changes.
\<close>

theorem ib_boost_main_cycle_start:
  assumes "0 < length (boost_info s)"
  shows "(let s' = ib_boost_main n_online now s
          in ib_nr_cpus_to_boost s' = (if n_online = 1 then 2 else 1) \<and>
             ib_adj_duration_ms s' = ib_duration_ms s * 3 div (3 + n_online) \<and>
             (unat (ib_duration_ms s) * 3 < 2 ^ 32 \<and> unat n_online + 3 < 2 ^ 32 \<longrightarrow>
                unat (ib_adj_duration_ms s') = unat (ib_duration_ms s) * 3 div (3 + unat n_online) \<and>
                unat (ib_adj_duration_ms s' + 10) = unat (ib_adj_duration_ms s') + 10) \<and>
             boost_state (per_cpu s' 0) = BOOST \<and>
             ib_restore_work (per_cpu s' 0) = Some (ib_adj_duration_ms s' + 10) \<and>
             ib_nr_cpus_boosted s' = 1 \<and>
             boost_start_time s' = now \<and>
             policy_updates s' = policy_updates s @ [0] \<and>
             (\<forall>k. k \<noteq> 0 \<longrightarrow> per_cpu s' k = per_cpu s k))"
  using assms
  by (simp add: ib_boost_main_def boost_cpu0_result Let_def per_cpu_def
      adj_duration_no_overflow)

theorem ib_boost_main_cycle_start_witness:
  "0 < length (boost_info demo_input) \<and> ib_duration_ms demo_input = 1400 \<and>
   ib_nr_cpus_to_boost (ib_boost_main 1 5000 demo_input) = 2 \<and>
   ib_adj_duration_ms (ib_boost_main 1 5000 demo_input) = 1050 \<and>
   ib_restore_work (per_cpu (ib_boost_main 1 5000 demo_input) 0) = Some 1060 \<and>
   boost_state (per_cpu (ib_boost_main 1 5000 demo_input) 0) = BOOST \<and>
   ib_nr_cpus_to_boost (ib_boost_main 2 5000 demo_input) = 1 \<and>
   ib_adj_duration_ms (ib_boost_main 2 5000 demo_input) = 840 \<and>
   ib_nr_cpus_to_boost (ib_boost_main 4 5000 demo_input) = 1 \<and>
   ib_adj_duration_ms (ib_boost_main 4 5000 demo_input) = 600 \<and>
   ib_nr_cpus_to_boost (ib_boost_main 8 5000 demo_input) = 1 \<and>
   ib_adj_duration_ms (ib_boost_main 8 5000 demo_input) = 381 \<and>
   ib_restore_work (per_cpu (ib_boost_main 8 5000 demo_input) 0) = Some 391"
proof -
  have h: "0 < length (boost_info demo_input)"
    and d: "ib_duration_ms demo_input = 1400"
    by code_simp+
  note c1 = ib_boost_main_cycle_start [OF h, where n_online = 1 and now = 5000, unfolded Let_def d]
  note c2 = ib_boost_main_cycle_start [OF h, where n_online = 2 and now = 5000, unfolded Let_def d]
  note c4 = ib_boost_main_cycle_start [OF h, where n_online = 4 and now = 5000, unfolded Let_def d]
  note c8 = ib_boost_main_cycle_start [OF h, where n_online = 8 and now = 5000, unfolded Let_def d]
  have q: "(1400 :: u32) * 3 div (3 + 1) = 1050" "(1400 :: u32) * 3 div (3 + 2) = 840"
    "(1400 :: u32) * 3 div (3 + 4) = 600" "(1400 :: u32) * 3 div (3 + 8) = 381"
    by simp_all
  show ?thesis
    using h d c1 c2 c4 c8 unfolding q by simp
qed

section \<open>The loops over the possible CPUs\<close>

lemma unboost_all_step_result:
  "unboost_all_step online c s =
     s\<lparr>boost_info := (boost_info s)[c := (boost_info s ! c)\<lparr>boost_state := UNBOOST\<rparr>],
       policy_updates := policy_updates s @ filter online [c]\<rparr>"
  by (simp add: unboost_all_step_def set_per_cpu_def cpufreq_update_policy_def Let_def)

lemma unboost_all_loop_result:
  "unboost_all_loop online cs s =
     s\<lparr>boost_info := fold (\<lambda>c xs. xs[c := (xs ! c)\<lparr>boost_state := UNBOOST\<rparr>]) cs (boost_info s),
       policy_updates := policy_updates s @ filter online cs\<rparr>"
  by (induction cs arbitrary: s) (simp_all add: unboost_all_step_result)

lemma stop_remove_loop_result:
  "stop_remove_loop cs s =
     s\<lparr>boost_info := fold (\<lambda>c xs. xs[c := (xs ! c)\<lparr>mig_boost_rem := None,
                                 ib_restore_work := None, migration_freq := 0\<rparr>]) cs (boost_info s)\<rparr>"
  by (induction cs arbitrary: s)
     (simp_all add: stop_remove_step_def set_per_cpu_def cancel_delayed_work_sync_def)

lemma update_policy_loop_result:
  "update_policy_loop cs s = s\<lparr>policy_updates := policy_updates s @ cs\<rparr>"
  by (induction cs arbitrary: s) (simp_all add: cpufreq_update_policy_def)

text \<open>Updating every index in turn is a map.\<close>

lemma fold_update_length [simp]:
  "length (fold (\<lambda>c xs. xs[c := f (xs ! c)]) cs xs) = length xs"
  by (induction cs arbitrary: xs) simp_all

lemma fold_update_nth:
  assumes "distinct cs" and "k < length xs"
  shows "fold (\<lambda>c xs. xs[c := f (xs ! c)]) cs xs ! k = (if k \<in> set cs then f (xs ! k) else xs ! k)"
  using assms
proof (induction cs arbitrary: xs)
  case Nil
  then show ?case by simp
next
  case (Cons c cs)
  then show ?case
    by (cases "k = c") (auto simp add: nth_list_update)
qed

lemma fold_update_all:
  "fold (\<lambda>c xs. xs[c := f (xs ! c)]) [0..<length xs] xs = map f xs"
  by (rule nth_equalityI) (simp_all add: fold_update_nth)

lemma unboost_all_cpus_result:
  "unboost_all_cpus online s =
     s\<lparr>boost_info := map (\<lambda>b. b\<lparr>boost_state := UNBOOST\<rparr>) (boost_info s),
       policy_updates := policy_updates s @ filter online [0..<length (boost_info s)],
       ib_running := False\<rparr>"
  by (simp add: unboost_all_cpus_def unboost_all_loop_result possible_cpus_def
      fold_update_all [where f = "\<lambda>b. b\<lparr>boost_state := UNBOOST\<rparr>"])

lemma stop_remove_all_boosts_result:
  "stop_remove_all_boosts online s =
     s\<lparr>boost_work := False, fb_boost_work := None, fb_boost := UNBOOST,
       boost_info := map (\<lambda>b. b\<lparr>mig_boost_rem := None, ib_restore_work := None,
                                 migration_freq := 0, boost_state := UNBOOST\<rparr>) (boost_info s),
       policy_updates := policy_updates s @ filter online [0..<length (boost_info s)],
       ib_running := False\<rparr>"
  by (simp add: stop_remove_all_boosts_def stop_remove_loop_result unboost_all_cpus_result
      possible_cpus_def cancel_delayed_work_sync_def Let_def comp_def
      fold_update_all [where f = "\<lambda>b. b\<lparr>mig_boost_rem := None, ib_restore_work := None,
        migration_freq := 0\<rparr>"])

lemma fb_boost_main_result:
  "fb_boost_main online s =
     (if fb_boost s = BOOST then
        s\<lparr>policy_updates := policy_updates s @ filter online [0..<length (boost_info s)],
          fb_boost := WAITING, fb_boost_work := Some FB_BOOST_MS\<rparr>
      else
        s\<lparr>fb_boost := UNBOOST,
          boost_info := map (\<lambda>b. b\<lparr>boost_state := UNBOOST\<rparr>) (boost_info s),
          policy_updates := policy_updates s @ filter online [0..<length (boost_info s)],
          ib_running := False\<rparr>)"
  by (simp add: fb_boost_main_def update_policy_loop_result unboost_all_cpus_result
      possible_cpus_def queue_delayed_work_def Let_def)

section \<open>The policy notifier\<close>

lemma do_cpu_boost_fast_exit:
  "enabled s = 0 \<Longrightarrow> policy_min policy = cpuinfo_min_freq policy \<Longrightarrow>
     do_cpu_boost now val policy s = (policy, s)"
  by (simp add: do_cpu_boost_def)

lemma do_cpu_boost_not_adjust:
  "val \<noteq> CPUFREQ_ADJUST \<Longrightarrow> do_cpu_boost now val policy s = (policy, s)"
  by (simp add: do_cpu_boost_def)

lemma do_cpu_boost_fb:
  "fb_boost s \<noteq> UNBOOST \<Longrightarrow>
     do_cpu_boost now val policy s =
       (if (enabled s = 0 \<and> policy_min policy = cpuinfo_min_freq policy) \<or> val \<noteq> CPUFREQ_ADJUST
        then (policy, s) else (policy\<lparr>policy_min := policy_max policy\<rparr>, s))"
  by (simp add: do_cpu_boost_def)

section \<open>Stop and clear\<close>

lemma enabled_write_zero:
  "snd (enabled_write online [0] sz s) = stop_remove_all_boosts online (s\<lparr>enabled := 0\<rparr>)"
  by (simp add: enabled_write_def)

lemma no_admission_unchanged:
  "policy_cpu policy = 0 \<or> \<not> ib_nr_cpus_boosted s < ib_nr_cpus_to_boost s \<or>
     \<not> 0 < sint (duration_ms now s) \<Longrightarrow>
   boost_offline_cpu now policy s = (policy, s)"
  by (auto simp add: boost_offline_cpu_def)

lemma input_boost_floor_fields [simp]:
  "policy_cpu (input_boost_floor s policy) = policy_cpu policy"
  "policy_max (input_boost_floor s policy) = policy_max policy"
  "cpuinfo_min_freq (input_boost_floor s policy) = cpuinfo_min_freq policy"
  by (simp_all add: input_boost_floor_def Let_def)

lemma duration_ms_fields [simp]:
  "duration_ms now (s\<lparr>boost_info := bi\<rparr>) = duration_ms now s"
  "duration_ms now (s\<lparr>policy_updates := pu\<rparr>) = duration_ms now s"
  "duration_ms now (s\<lparr>ib_running := r\<rparr>) = duration_ms now s"
  "duration_ms now (s\<lparr>fb_boost := f\<rparr>) = duration_ms now s"
  "duration_ms now (s\<lparr>fb_boost_work := w\<rparr>) = duration_ms now s"
  "duration_ms now (s\<lparr>boost_work := q\<rparr>) = duration_ms now s"
  "duration_ms now (s\<lparr>enabled := e\<rparr>) = duration_ms now s"
  by (simp_all add: duration_ms_def)

text \<open>
  What writing 0 to \<open>enabled\<close> does to the state: the closed form of
  \<open>stop_remove_all_boosts\<close>, that a second call only repeats the policy update requests,
  and the floor the policy notifier gives right afterwards to a CPU for which the
  admission to the input-boost cycle is not open.
\<close>

lemma enabled_write_zero_effect:
  "(let s' = snd (enabled_write online [0] sz s)
    in s' = s\<lparr>enabled := 0, boost_work := False, fb_boost_work := None, fb_boost := UNBOOST,
              boost_info := map (\<lambda>b. b\<lparr>mig_boost_rem := None, ib_restore_work := None,
                                 migration_freq := 0, boost_state := UNBOOST\<rparr>) (boost_info s),
              policy_updates := policy_updates s @ filter online [0..<length (boost_info s)],
              ib_running := False\<rparr> \<and>
       (\<forall>b \<in> set (boost_info s').
          ib_restore_work b = None \<and> mig_boost_rem b = None \<and> migration_freq b = 0 \<and>
          boost_state b = UNBOOST) \<and>
       stop_remove_all_boosts online s' =
         s'\<lparr>policy_updates := policy_updates s' @ filter online [0..<length (boost_info s')]\<rparr> \<and>
       (policy_cpu policy < length (boost_info s) \<and>
        (policy_cpu policy = 0 \<or> \<not> ib_nr_cpus_boosted s < ib_nr_cpus_to_boost s \<or>
         \<not> 0 < sint (duration_ms now s)) \<longrightarrow>
          policy_min (fst (do_cpu_boost now CPUFREQ_ADJUST policy s')) = cpuinfo_min_freq policy))"
proof -
  define s' where "s' = snd (enabled_write online [0] sz s)"
  have eq: "s' = s\<lparr>enabled := 0, boost_work := False, fb_boost_work := None, fb_boost := UNBOOST,
              boost_info := map (\<lambda>b. b\<lparr>mig_boost_rem := None, ib_restore_work := None,
                                 migration_freq := 0, boost_state := UNBOOST\<rparr>) (boost_info s),
              policy_updates := policy_updates s @ filter online [0..<length (boost_info s)],
              ib_running := False\<rparr>"
    by (simp add: s'_def enabled_write_zero stop_remove_all_boosts_result)
  have all: "\<forall>b \<in> set (boost_info s').
          ib_restore_work b = None \<and> mig_boost_rem b = None \<and> migration_freq b = 0 \<and>
          boost_state b = UNBOOST"
    by (simp add: eq)
  have idem: "stop_remove_all_boosts online s' =
         s'\<lparr>policy_updates := policy_updates s' @ filter online [0..<length (boost_info s')]\<rparr>"
    by (simp add: eq stop_remove_all_boosts_result comp_def)
  have floor: "policy_min (fst (do_cpu_boost now CPUFREQ_ADJUST policy s')) = cpuinfo_min_freq policy"
    if k: "policy_cpu policy < length (boost_info s)"
      and closed: "policy_cpu policy = 0 \<or> \<not> ib_nr_cpus_boosted s < ib_nr_cpus_to_boost s \<or>
         \<not> 0 < sint (duration_ms now s)"
  proof -
    have b: "per_cpu s' (policy_cpu policy) =
        (per_cpu s (policy_cpu policy))\<lparr>mig_boost_rem := None, ib_restore_work := None,
           migration_freq := 0, boost_state := UNBOOST\<rparr>"
      using k by (simp add: eq per_cpu_def)
    have en: "enabled s' = 0" and fb: "fb_boost s' = UNBOOST"
      by (simp_all add: eq)
    have ibf: "input_boost_floor s' policy = policy\<lparr>policy_min := cpuinfo_min_freq policy\<rparr>"
      by (simp add: input_boost_floor_def b)
    have "policy_cpu (policy\<lparr>policy_min := cpuinfo_min_freq policy\<rparr>) = 0 \<or>
        \<not> ib_nr_cpus_boosted s' < ib_nr_cpus_to_boost s' \<or> \<not> 0 < sint (duration_ms now s')"
      using closed by (simp add: eq)
    then have adm: "boost_offline_cpu now (policy\<lparr>policy_min := cpuinfo_min_freq policy\<rparr>) s' =
        (policy\<lparr>policy_min := cpuinfo_min_freq policy\<rparr>, s')"
      by (rule no_admission_unchanged)
    have mf: "migration_floor s' (policy\<lparr>policy_min := cpuinfo_min_freq policy\<rparr>) =
        policy\<lparr>policy_min := cpuinfo_min_freq policy\<rparr>"
      by (simp add: migration_floor_def b)
    show ?thesis
      by (simp add: do_cpu_boost_def en fb ibf adm mf)
  qed
  show ?thesis
    unfolding Let_def s'_def [symmetric]
    using eq all idem floor by blast
qed

section \<open>The policy notifier when the driver is disabled\<close>

lemma record_enabled_same: "enabled s = e \<Longrightarrow> s\<lparr>enabled := e\<rparr> = s"
  by (cases s) simp

lemma input_boost_floor_enabled [simp]:
  "input_boost_floor (s\<lparr>enabled := e\<rparr>) policy = input_boost_floor s policy"
  by (simp add: input_boost_floor_def per_cpu_def Let_def)

lemma migration_floor_enabled [simp]:
  "migration_floor (s\<lparr>enabled := e\<rparr>) policy = migration_floor s policy"
  by (simp add: migration_floor_def per_cpu_def)

lemma boost_offline_cpu_enabled:
  "boost_offline_cpu now policy (s\<lparr>enabled := e\<rparr>) =
     (fst (boost_offline_cpu now policy s), (snd (boost_offline_cpu now policy s))\<lparr>enabled := e\<rparr>)"
  by (simp add: boost_offline_cpu_def set_per_cpu_def Let_def)

lemma boost_offline_cpu_keeps_enabled [simp]:
  "enabled (snd (boost_offline_cpu now policy s)) = enabled s"
  by (simp add: boost_offline_cpu_def Let_def)

lemma do_cpu_boost_keeps_enabled [simp]:
  "enabled (snd (do_cpu_boost now val policy s)) = enabled s"
  by (simp add: do_cpu_boost_def Let_def split_beta)

lemma do_cpu_boost_enabled_irrelevant:
  assumes "policy_min policy \<noteq> cpuinfo_min_freq policy"
  shows "do_cpu_boost now val policy s =
     (fst (do_cpu_boost now val policy (s\<lparr>enabled := 1\<rparr>)),
      (snd (do_cpu_boost now val policy (s\<lparr>enabled := 1\<rparr>)))\<lparr>enabled := enabled s\<rparr>)"
  using assms
  by (simp add: do_cpu_boost_def Let_def split_beta boost_offline_cpu_enabled record_enabled_same)

lemma do_cpu_boost_adjust:
  assumes "enabled s \<noteq> 0 \<or> policy_min policy \<noteq> cpuinfo_min_freq policy"
    and "fb_boost s = UNBOOST"
  shows "do_cpu_boost now CPUFREQ_ADJUST policy s =
     (migration_floor (snd (boost_offline_cpu now (input_boost_floor s policy) s))
        (fst (boost_offline_cpu now (input_boost_floor s policy) s)),
      snd (boost_offline_cpu now (input_boost_floor s policy) s))"
  using assms by (auto simp add: do_cpu_boost_def Let_def split_beta)

lemma list_update_again:
  "xs[i := f (xs[i := a] ! i)] = xs[i := f a]"
  by (cases "i < length xs") (simp_all add: list_update_beyond)

lemma boost_offline_cpu_admits:
  assumes "ib_nr_cpus_boosted s < ib_nr_cpus_to_boost s" and "policy_cpu policy \<noteq> 0"
    and "0 < sint (duration_ms now s)"
  shows "boost_offline_cpu now policy s =
     (policy\<lparr>policy_min := min (policy_max policy) (ib_freq s ! 1)\<rparr>,
      s\<lparr>boost_info := (boost_info s)[policy_cpu policy :=
           (boost_info s ! policy_cpu policy)\<lparr>boost_state := BOOST,
              ib_restore_work := Some (duration_ms now s)\<rparr>],
        ib_nr_cpus_boosted := ib_nr_cpus_boosted s + 1\<rparr>)"
  using assms
  by (simp add: boost_offline_cpu_def set_per_cpu_def queue_delayed_work_def Let_def
      list_update_again [where f = "\<lambda>b. b\<lparr>ib_restore_work := Some (duration_ms now s)\<rparr>"])

section \<open>The remaining time of the cycle\<close>

lemma uint_less_of_unat_less:
  fixes w :: "'a::len word"
  assumes "unat w < 2 ^ n"
  shows "uint w < 2 ^ n"
proof -
  have "int (unat w) < int (2 ^ n)"
    using assms by (simp only: of_nat_less_iff)
  then show ?thesis
    by simp
qed

lemma narrow_difference:
  fixes adj :: u32 and e :: u64
  shows "(ucast ((ucast adj :: u64) - e) :: u32) = word_of_int (uint adj - uint e)"
proof -
  have "uint adj < 2 ^ 32"
    using uint_lt2p [of adj] by simp
  then have "uint adj < 2 ^ 64"
    by simp
  then have up: "uint (ucast adj :: u64) = uint adj"
    by (simp add: unsigned_ucast_eq take_bit_int_eq_self)
  have "(2 :: int) ^ 32 dvd 2 ^ 64"
    by (rule le_imp_power_dvd) simp
  then have "(uint adj - uint e) mod 2 ^ 64 mod 2 ^ 32 = (uint adj - uint e) mod 2 ^ 32"
    by (rule mod_mod_cancel)
  then have "take_bit 32 ((uint adj - uint e) mod 2 ^ 64) = take_bit 32 (uint adj - uint e)"
    by (simp only: take_bit_eq_mod)
  then have cut: "(word_of_int ((uint adj - uint e) mod 2 ^ 64) :: u32) =
      word_of_int (uint adj - uint e)"
    by (simp only: word_of_int_eq_iff len_bit0 len_num1 mult_numeral_1_right
        numeral_times_numeral semiring_norm)
  have "uint ((ucast adj :: u64) - e) = (uint (ucast adj :: u64) - uint e) mod 2 ^ 64"
    by (simp add: uint_word_ariths)
  then have "uint ((ucast adj :: u64) - e) = (uint adj - uint e) mod 2 ^ 64"
    by (simp only: up)
  then have "(ucast ((ucast adj :: u64) - e) :: u32) =
      word_of_int ((uint adj - uint e) mod 2 ^ 64)"
    by (simp only: ucast_eq)
  then show ?thesis
    by (simp only: cut)
qed

lemma sint_narrow_difference:
  fixes adj :: u32 and e :: u64
  assumes "unat e < 2 ^ 31" and "unat adj < 2 ^ 31"
  shows "sint (ucast ((ucast adj :: u64) - e) :: u32) = int (unat adj) - int (unat e)"
proof -
  have ue: "uint e < 2 ^ 31"
    using assms(1) by (rule uint_less_of_unat_less)
  have ua: "uint adj < 2 ^ 31"
    using assms(2) by (rule uint_less_of_unat_less)
  have lo: "- (2 ^ 31) \<le> uint adj - uint e"
    using ue uint_ge_0 [of adj] by linarith
  have hi: "uint adj - uint e < 2 ^ 31"
    using ua uint_ge_0 [of e] by linarith
  have "sint (word_of_int (uint adj - uint e) :: u32) = signed_take_bit 31 (uint adj - uint e)"
    unfolding sint_sbintrunc' by simp
  also have "\<dots> = uint adj - uint e"
    using lo hi by (rule signed_take_bit_int_eq_self)
  finally show ?thesis
    unfolding narrow_difference by simp
qed

lemma duration_ms_no_wrap:
  assumes "unat (now - boost_start_time s) < 2 ^ 31" and "unat (ib_adj_duration_ms s) < 2 ^ 31"
  shows "0 < sint (duration_ms now s) \<longleftrightarrow>
           unat (now - boost_start_time s) < unat (ib_adj_duration_ms s)"
    and "unat (now - boost_start_time s) < unat (ib_adj_duration_ms s) \<Longrightarrow>
           unat (duration_ms now s) = unat (ib_adj_duration_ms s) - unat (now - boost_start_time s)"
proof -
  let ?a = "ib_adj_duration_ms s" and ?e = "now - boost_start_time s"
  have s: "sint (duration_ms now s) = int (unat ?a) - int (unat ?e)"
    unfolding duration_ms_def by (rule sint_narrow_difference [OF assms])
  show "0 < sint (duration_ms now s) \<longleftrightarrow> unat ?e < unat ?a"
    unfolding s by linarith
  assume less: "unat ?e < unat ?a"
  then have "int (unat ?e) \<le> int (unat ?a)"
    by linarith
  then have lo: "0 \<le> uint ?a - uint ?e"
    by simp
  have "uint ?a < 2 ^ 32"
    using uint_lt2p [of ?a] by simp
  then have hi: "uint ?a - uint ?e < 2 ^ 32"
    using uint_ge_0 [of ?e] by linarith
  have "uint (duration_ms now s) = (uint ?a - uint ?e) mod 2 ^ 32"
    unfolding duration_ms_def narrow_difference uint_word_of_int by simp
  also have "\<dots> = uint ?a - uint ?e"
    using lo hi by (rule mod_pos_pos_trivial)
  finally have "int (unat (duration_ms now s)) = int (unat ?a) - int (unat ?e)"
    by simp
  then show "unat (duration_ms now s) = unat ?a - unat ?e"
    using less by linarith
qed

section \<open>What the actions do to the counters and the switches\<close>

lemma boost_offline_cpu_globals [simp]:
  "ib_nr_cpus_to_boost (snd (boost_offline_cpu now policy s)) = ib_nr_cpus_to_boost s"
  "fb_boost (snd (boost_offline_cpu now policy s)) = fb_boost s"
  by (simp_all add: boost_offline_cpu_def Let_def)

lemma do_cpu_boost_globals [simp]:
  "ib_nr_cpus_to_boost (snd (do_cpu_boost now val policy s)) = ib_nr_cpus_to_boost s"
  "fb_boost (snd (do_cpu_boost now val policy s)) = fb_boost s"
  by (simp_all add: do_cpu_boost_def Let_def split_beta)

lemma unboost_cpu_globals [simp]:
  "ib_nr_cpus_to_boost (unboost_cpu online c s) = ib_nr_cpus_to_boost s"
  "ib_nr_cpus_boosted (unboost_cpu online c s) = ib_nr_cpus_boosted s"
  "fb_boost (unboost_cpu online c s) = fb_boost s"
  "enabled (unboost_cpu online c s) = enabled s"
  by (simp_all add: unboost_cpu_def Let_def)

lemma ib_restore_main_globals [simp]:
  "ib_nr_cpus_to_boost (ib_restore_main online k s) = ib_nr_cpus_to_boost s"
  "ib_nr_cpus_boosted (ib_restore_main online k s) = ib_nr_cpus_boosted s"
  "fb_boost (ib_restore_main online k s) = fb_boost s"
  "enabled (ib_restore_main online k s) = enabled s"
  by (simp_all add: ib_restore_main_def Let_def)

lemma boost_mig_sync_thread_globals [simp]:
  "ib_nr_cpus_to_boost (boost_mig_sync_thread get_policy online c s) = ib_nr_cpus_to_boost s"
  "ib_nr_cpus_boosted (boost_mig_sync_thread get_policy online c s) = ib_nr_cpus_boosted s"
  "fb_boost (boost_mig_sync_thread get_policy online c s) = fb_boost s"
  "enabled (boost_mig_sync_thread get_policy online c s) = enabled s"
  by (simp_all add: boost_mig_sync_thread_def Let_def set_per_cpu_def cpufreq_update_policy_def
      split: option.splits)

lemma boost_migration_notify_globals [simp]:
  "ib_nr_cpus_to_boost (boost_migration_notify cur mnd s) = ib_nr_cpus_to_boost s"
  "ib_nr_cpus_boosted (boost_migration_notify cur mnd s) = ib_nr_cpus_boosted s"
  "fb_boost (boost_migration_notify cur mnd s) = fb_boost s"
  "enabled (boost_migration_notify cur mnd s) = enabled s"
  by (simp_all add: boost_migration_notify_def)

lemma do_mig_boost_rem_globals [simp]:
  "ib_nr_cpus_to_boost (do_mig_boost_rem k s) = ib_nr_cpus_to_boost s"
  "ib_nr_cpus_boosted (do_mig_boost_rem k s) = ib_nr_cpus_boosted s"
  "fb_boost (do_mig_boost_rem k s) = fb_boost s"
  "enabled (do_mig_boost_rem k s) = enabled s"
  by (simp_all add: do_mig_boost_rem_def Let_def)

lemma sysfs_write_globals [simp]:
  "ib_nr_cpus_to_boost (snd (enabled_write online scanned sz s)) = ib_nr_cpus_to_boost s"
  "ib_nr_cpus_boosted (snd (enabled_write online scanned sz s)) = ib_nr_cpus_boosted s"
  "ib_nr_cpus_to_boost (snd (ib_freqs_write scanned sz s)) = ib_nr_cpus_to_boost s"
  "ib_nr_cpus_boosted (snd (ib_freqs_write scanned sz s)) = ib_nr_cpus_boosted s"
  "fb_boost (snd (ib_freqs_write scanned sz s)) = fb_boost s"
  "enabled (snd (ib_freqs_write scanned sz s)) = enabled s"
  "ib_nr_cpus_to_boost (snd (ib_duration_ms_write scanned sz s)) = ib_nr_cpus_to_boost s"
  "ib_nr_cpus_boosted (snd (ib_duration_ms_write scanned sz s)) = ib_nr_cpus_boosted s"
  "fb_boost (snd (ib_duration_ms_write scanned sz s)) = fb_boost s"
  "enabled (snd (ib_duration_ms_write scanned sz s)) = enabled s"
  "ib_nr_cpus_to_boost (snd (load_based_syncs_write scanned sz s)) = ib_nr_cpus_to_boost s"
  "ib_nr_cpus_boosted (snd (load_based_syncs_write scanned sz s)) = ib_nr_cpus_boosted s"
  "fb_boost (snd (load_based_syncs_write scanned sz s)) = fb_boost s"
  "enabled (snd (load_based_syncs_write scanned sz s)) = enabled s"
  "ib_nr_cpus_to_boost (snd (migration_boost_ms_write scanned sz s)) = ib_nr_cpus_to_boost s"
  "ib_nr_cpus_boosted (snd (migration_boost_ms_write scanned sz s)) = ib_nr_cpus_boosted s"
  "fb_boost (snd (migration_boost_ms_write scanned sz s)) = fb_boost s"
  "enabled (snd (migration_boost_ms_write scanned sz s)) = enabled s"
  "ib_nr_cpus_to_boost (snd (migration_load_threshold_write scanned sz s)) = ib_nr_cpus_to_boost s"
  "ib_nr_cpus_boosted (snd (migration_load_threshold_write scanned sz s)) = ib_nr_cpus_boosted s"
  "fb_boost (snd (migration_load_threshold_write scanned sz s)) = fb_boost s"
  "enabled (snd (migration_load_threshold_write scanned sz s)) = enabled s"
  by (simp_all add: enabled_write_def stop_remove_all_boosts_result ib_freqs_write_def
      ib_duration_ms_write_def load_based_syncs_write_def migration_boost_ms_write_def
      migration_load_threshold_write_def Let_def)

lemma fb_globals [simp]:
  "ib_nr_cpus_to_boost (fb_boost_main online s) = ib_nr_cpus_to_boost s"
  "ib_nr_cpus_boosted (fb_boost_main online s) = ib_nr_cpus_boosted s"
  "enabled (fb_boost_main online s) = enabled s"
  "ib_nr_cpus_to_boost (fb_blank_boost val blank s) = ib_nr_cpus_to_boost s"
  "ib_nr_cpus_boosted (fb_blank_boost val blank s) = ib_nr_cpus_boosted s"
  "enabled (fb_blank_boost val blank s) = enabled s"
  "ib_nr_cpus_to_boost (cpu_ib_input_event s) = ib_nr_cpus_to_boost s"
  "ib_nr_cpus_boosted (cpu_ib_input_event s) = ib_nr_cpus_boosted s"
  "enabled (cpu_ib_input_event s) = enabled s"
  "fb_boost (cpu_ib_input_event s) = fb_boost s"
  by (simp_all add: fb_boost_main_result fb_blank_boost_def cpu_ib_input_event_def Let_def)

lemma ib_boost_main_globals [simp]:
  "enabled (ib_boost_main n_online now s) = enabled s"
  "fb_boost (ib_boost_main n_online now s) = fb_boost s"
  "ib_nr_cpus_boosted (ib_boost_main n_online now s) = 1"
  "ib_nr_cpus_to_boost (ib_boost_main n_online now s) = (if n_online = 1 then 2 else 1)"
  by (simp_all add: ib_boost_main_def boost_cpu0_def Let_def)

lemma perform_keeps_target:
  "\<not> is_boost_work a \<Longrightarrow> ib_nr_cpus_to_boost (perform a s) = ib_nr_cpus_to_boost s"
  by (cases a) simp_all

lemma perform_keeps_count:
  "\<not> is_boost_work a \<Longrightarrow> admitted_cpu a s = [] \<Longrightarrow>
     ib_nr_cpus_boosted (perform a s) = ib_nr_cpus_boosted s"
  by (cases a) (simp_all add: admits_def split: if_splits)





section \<open>Admission to the input-boost cycle\<close>

lemma boost_offline_cpu_count:
  "ib_nr_cpus_boosted (snd (boost_offline_cpu now policy s)) =
     (if ib_nr_cpus_boosted s < ib_nr_cpus_to_boost s \<and> policy_cpu policy \<noteq> 0 \<and>
         0 < sint (duration_ms now s)
      then ib_nr_cpus_boosted s + 1 else ib_nr_cpus_boosted s)"
  by (simp add: boost_offline_cpu_def Let_def)

lemma admits_iff:
  "admits now val policy s \<longleftrightarrow>
     (enabled s \<noteq> 0 \<or> policy_min policy \<noteq> cpuinfo_min_freq policy) \<and> val = CPUFREQ_ADJUST \<and>
     fb_boost s = UNBOOST \<and> policy_cpu policy \<noteq> 0 \<and>
     ib_nr_cpus_boosted s < ib_nr_cpus_to_boost s \<and> 0 < sint (duration_ms now s)"
  by (auto simp add: admits_def do_cpu_boost_def Let_def split_beta boost_offline_cpu_count)

lemma not_admits_unchanged:
  assumes "\<not> admits now val policy s"
  shows "snd (do_cpu_boost now val policy s) = s"
proof (cases "(enabled s \<noteq> 0 \<or> policy_min policy \<noteq> cpuinfo_min_freq policy) \<and>
    val = CPUFREQ_ADJUST \<and> fb_boost s = UNBOOST")
  case True
  with assms have "policy_cpu (input_boost_floor s policy) = 0 \<or>
      \<not> ib_nr_cpus_boosted s < ib_nr_cpus_to_boost s \<or> \<not> 0 < sint (duration_ms now s)"
    by (auto simp add: admits_iff)
  then have "boost_offline_cpu now (input_boost_floor s policy) s = (input_boost_floor s policy, s)"
    by (rule no_admission_unchanged)
  with True show ?thesis
    by (simp add: do_cpu_boost_adjust)
next
  case False
  then show ?thesis
    by (auto simp add: do_cpu_boost_def)
qed

lemma admits_effect:
  assumes "admits now val policy s"
  shows "do_cpu_boost now val policy s =
     (migration_floor
        (s\<lparr>boost_info := (boost_info s)[policy_cpu policy :=
              (boost_info s ! policy_cpu policy)\<lparr>boost_state := BOOST,
                 ib_restore_work := Some (duration_ms now s)\<rparr>],
           ib_nr_cpus_boosted := ib_nr_cpus_boosted s + 1\<rparr>)
        ((input_boost_floor s policy)\<lparr>policy_min := min (policy_max policy) (ib_freq s ! 1)\<rparr>),
      s\<lparr>boost_info := (boost_info s)[policy_cpu policy :=
            (boost_info s ! policy_cpu policy)\<lparr>boost_state := BOOST,
               ib_restore_work := Some (duration_ms now s)\<rparr>],
         ib_nr_cpus_boosted := ib_nr_cpus_boosted s + 1\<rparr>)"
proof -
  from assms have a: "enabled s \<noteq> 0 \<or> policy_min policy \<noteq> cpuinfo_min_freq policy"
    "val = CPUFREQ_ADJUST" "fb_boost s = UNBOOST" "policy_cpu policy \<noteq> 0"
    "ib_nr_cpus_boosted s < ib_nr_cpus_to_boost s" "0 < sint (duration_ms now s)"
    by (simp_all add: admits_iff)
  have adm: "boost_offline_cpu now (input_boost_floor s policy) s =
      ((input_boost_floor s policy)\<lparr>policy_min := min (policy_max policy) (ib_freq s ! 1)\<rparr>,
       s\<lparr>boost_info := (boost_info s)[policy_cpu policy :=
            (boost_info s ! policy_cpu policy)\<lparr>boost_state := BOOST,
               ib_restore_work := Some (duration_ms now s)\<rparr>],
         ib_nr_cpus_boosted := ib_nr_cpus_boosted s + 1\<rparr>)"
    using a(4-6) boost_offline_cpu_admits [where policy = "input_boost_floor s policy" and s = s and now = now]
    by simp
  show ?thesis
    unfolding a(2) do_cpu_boost_adjust [OF a(1) a(3)] adm by simp
qed

lemma closed_cycle_admits_nothing:
  assumes "\<forall>a \<in> set as. \<not> is_boost_work a"
    and "\<not> ib_nr_cpus_boosted s < ib_nr_cpus_to_boost s"
  shows "admissions as s = []"
  using assms
proof (induction as arbitrary: s)
  case Nil
  show ?case by simp
next
  case (Cons a as)
  have none: "admitted_cpu a s = []"
    using Cons.prems(2) by (cases a) (simp_all add: admits_iff)
  have nb: "\<not> is_boost_work a"
    using Cons.prems(1) by simp
  have "\<not> ib_nr_cpus_boosted (perform a s) < ib_nr_cpus_to_boost (perform a s)"
    using Cons.prems(2) by (simp add: perform_keeps_target [OF nb] perform_keeps_count [OF nb none])
  then have "admissions as (perform a s) = []"
    using Cons.prems(1) by (intro Cons.IH) simp_all
  then show ?case
    by (simp add: none)
qed

lemma two_is_not_below:
  fixes t :: u32
  assumes "t \<le> 2"
  shows "\<not> 1 + 1 < t"
  using assms by (simp add: not_less)

lemma cycle_admits_at_most_one:
  assumes "\<forall>a \<in> set as. \<not> is_boost_work a"
    and "ib_nr_cpus_boosted s = 1" and "ib_nr_cpus_to_boost s \<le> 2"
  shows "length (admissions as s) \<le> 1 \<and> 0 \<notin> set (admissions as s)"
  using assms
proof (induction as arbitrary: s)
  case Nil
  show ?case by simp
next
  case (Cons a as)
  have nb: "\<not> is_boost_work a" and rest: "\<forall>a \<in> set as. \<not> is_boost_work a"
    using Cons.prems(1) by simp_all
  show ?case
  proof (cases "admitted_cpu a s = []")
    case True
    have "ib_nr_cpus_boosted (perform a s) = 1" "ib_nr_cpus_to_boost (perform a s) \<le> 2"
      using Cons.prems(2,3)
      by (simp_all add: perform_keeps_target [OF nb] perform_keeps_count [OF nb True])
    with rest have "length (admissions as (perform a s)) \<le> 1 \<and>
        0 \<notin> set (admissions as (perform a s))"
      by (rule Cons.IH)
    with True show ?thesis by simp
  next
    case False
    then obtain now val policy where a: "a = Policy_notifier now val policy"
      and adm: "admits now val policy s"
      by (cases a) (simp_all split: if_splits)
    have cpu: "policy_cpu policy \<noteq> 0"
      using adm by (simp add: admits_iff)
    have "ib_nr_cpus_boosted (perform a s) = 1 + 1"
      using Cons.prems(2) by (simp add: a admits_effect [OF adm])
    moreover have "ib_nr_cpus_to_boost (perform a s) \<le> 2"
      using Cons.prems(3) by (simp add: perform_keeps_target [OF nb])
    ultimately have "\<not> ib_nr_cpus_boosted (perform a s) < ib_nr_cpus_to_boost (perform a s)"
      by (simp only: two_is_not_below not_False_eq_True)
    with rest have "admissions as (perform a s) = []"
      by (rule closed_cycle_admits_nothing)
    then show ?thesis
      using cpu adm by (simp add: a)
  qed
qed

text \<open>
  When the notifier call admits a CPU, in terms of the state and the time; what an
  admission does; and that between two runs of the boost work at most one CPU is
  admitted, never CPU0.
\<close>

lemma admission_characterised:
  "(admits now val policy s \<longleftrightarrow>
      (enabled s \<noteq> 0 \<or> policy_min policy \<noteq> cpuinfo_min_freq policy) \<and> val = CPUFREQ_ADJUST \<and>
      fb_boost s = UNBOOST \<and> policy_cpu policy \<noteq> 0 \<and>
      ib_nr_cpus_boosted s < ib_nr_cpus_to_boost s \<and> 0 < sint (duration_ms now s)) \<and>
   (unat (now - boost_start_time s) < 2 ^ 31 \<and> unat (ib_adj_duration_ms s) < 2 ^ 31 \<longrightarrow>
      (0 < sint (duration_ms now s) \<longleftrightarrow>
         unat (now - boost_start_time s) < unat (ib_adj_duration_ms s)) \<and>
      (unat (now - boost_start_time s) < unat (ib_adj_duration_ms s) \<longrightarrow>
         unat (duration_ms now s) =
           unat (ib_adj_duration_ms s) - unat (now - boost_start_time s))) \<and>
   (admits now val policy s \<and> policy_cpu policy < length (boost_info s) \<longrightarrow>
      boost_state (per_cpu (snd (do_cpu_boost now val policy s)) (policy_cpu policy)) = BOOST \<and>
      ib_restore_work (per_cpu (snd (do_cpu_boost now val policy s)) (policy_cpu policy)) =
        Some (duration_ms now s) \<and>
      ib_nr_cpus_boosted (snd (do_cpu_boost now val policy s)) = ib_nr_cpus_boosted s + 1 \<and>
      policy_min (fst (do_cpu_boost now val policy s)) =
        (if min (policy_max policy) (ib_freq s ! 1) < migration_freq (per_cpu s (policy_cpu policy))
         then min (policy_max policy) (migration_freq (per_cpu s (policy_cpu policy)))
         else min (policy_max policy) (ib_freq s ! 1)) \<and>
      (\<forall>k. k \<noteq> policy_cpu policy \<longrightarrow>
         per_cpu (snd (do_cpu_boost now val policy s)) k = per_cpu s k)) \<and>
   (\<not> admits now val policy s \<longrightarrow> snd (do_cpu_boost now val policy s) = s) \<and>
   ((\<forall>a \<in> set as. \<not> is_boost_work a) \<longrightarrow>
      length (admissions as (perform (Boost_work n_online start) s)) \<le> 1 \<and>
      distinct (0 # admissions as (perform (Boost_work n_online start) s)))"
proof (intro conjI impI)
  show "admits now val policy s \<longleftrightarrow>
      (enabled s \<noteq> 0 \<or> policy_min policy \<noteq> cpuinfo_min_freq policy) \<and> val = CPUFREQ_ADJUST \<and>
      fb_boost s = UNBOOST \<and> policy_cpu policy \<noteq> 0 \<and>
      ib_nr_cpus_boosted s < ib_nr_cpus_to_boost s \<and> 0 < sint (duration_ms now s)"
    by (rule admits_iff)
next
  assume "unat (now - boost_start_time s) < 2 ^ 31 \<and> unat (ib_adj_duration_ms s) < 2 ^ 31"
  then have b: "unat (now - boost_start_time s) < 2 ^ 31" "unat (ib_adj_duration_ms s) < 2 ^ 31"
    by blast+
  show "0 < sint (duration_ms now s) \<longleftrightarrow>
      unat (now - boost_start_time s) < unat (ib_adj_duration_ms s)"
    using b by (rule duration_ms_no_wrap(1))
  assume "unat (now - boost_start_time s) < unat (ib_adj_duration_ms s)"
  with b show "unat (duration_ms now s) =
      unat (ib_adj_duration_ms s) - unat (now - boost_start_time s)"
    by (rule duration_ms_no_wrap(2))
next
  assume "admits now val policy s \<and> policy_cpu policy < length (boost_info s)"
  then have adm: "admits now val policy s" and k: "policy_cpu policy < length (boost_info s)"
    by blast+
  note e = admits_effect [OF adm]
  show "boost_state (per_cpu (snd (do_cpu_boost now val policy s)) (policy_cpu policy)) = BOOST"
    using k by (simp add: e per_cpu_def)
  show "ib_restore_work (per_cpu (snd (do_cpu_boost now val policy s)) (policy_cpu policy)) =
      Some (duration_ms now s)"
    using k by (simp add: e per_cpu_def)
  show "ib_nr_cpus_boosted (snd (do_cpu_boost now val policy s)) = ib_nr_cpus_boosted s + 1"
    by (simp add: e)
  show "policy_min (fst (do_cpu_boost now val policy s)) =
      (if min (policy_max policy) (ib_freq s ! 1) < migration_freq (per_cpu s (policy_cpu policy))
       then min (policy_max policy) (migration_freq (per_cpu s (policy_cpu policy)))
       else min (policy_max policy) (ib_freq s ! 1))"
    using k by (simp add: e migration_floor_def per_cpu_def)
  show "\<forall>k. k \<noteq> policy_cpu policy \<longrightarrow>
      per_cpu (snd (do_cpu_boost now val policy s)) k = per_cpu s k"
    by (simp add: e per_cpu_def)
next
  assume "\<not> admits now val policy s"
  then show "snd (do_cpu_boost now val policy s) = s"
    by (rule not_admits_unchanged)
next
  assume nb: "\<forall>a \<in> set as. \<not> is_boost_work a"
  have "ib_nr_cpus_boosted (perform (Boost_work n_online start) s) = 1"
    "ib_nr_cpus_to_boost (perform (Boost_work n_online start) s) \<le> 2"
    by simp_all
  with nb have one: "length (admissions as (perform (Boost_work n_online start) s)) \<le> 1 \<and>
      0 \<notin> set (admissions as (perform (Boost_work n_online start) s))"
    by (rule cycle_admits_at_most_one)
  then show "length (admissions as (perform (Boost_work n_online start) s)) \<le> 1"
    by blast
  from one show "distinct (0 # admissions as (perform (Boost_work n_online start) s))"
    by (cases "admissions as (perform (Boost_work n_online start) s)") auto
qed

section \<open>The policy notifier in full\<close>

lemma input_boost_floor_min:
  "input_boost_floor s policy =
     policy\<lparr>policy_min :=
       (if boost_state (boost_info s ! policy_cpu policy) = UNBOOST then cpuinfo_min_freq policy
        else if boost_state (boost_info s ! policy_cpu policy) = BOOST
          then min (policy_max policy) (ib_freq s ! (if policy_cpu policy \<noteq> 0 then 1 else 0))
        else policy_min policy)\<rparr>"
  by (simp add: input_boost_floor_def per_cpu_def Let_def)

lemma migration_freq_after_admission:
  "migration_freq (xs[c := (xs ! c)\<lparr>boost_state := st, ib_restore_work := w\<rparr>] ! c) =
     migration_freq (xs ! c)"
  by (cases "c < length xs") (simp_all add: list_update_beyond)

lemma do_cpu_boost_adjust_full:
  assumes "enabled s \<noteq> 0 \<or> policy_min policy \<noteq> cpuinfo_min_freq policy"
  shows "do_cpu_boost now CPUFREQ_ADJUST policy s =
    (let b = boost_info s ! policy_cpu policy;
         remaining = (ucast ((ucast (ib_adj_duration_ms s) :: u64) - (now - boost_start_time s)) :: u32);
         admit = (policy_cpu policy \<noteq> 0 \<and> ib_nr_cpus_boosted s < ib_nr_cpus_to_boost s \<and>
                  0 < sint remaining);
         base = (if boost_state b = UNBOOST then cpuinfo_min_freq policy
                 else if boost_state b = BOOST
                   then min (policy_max policy) (ib_freq s ! (if policy_cpu policy \<noteq> 0 then 1 else 0))
                 else policy_min policy);
         floor = (if admit then min (policy_max policy) (ib_freq s ! 1) else base)
     in if fb_boost s \<noteq> UNBOOST then (policy\<lparr>policy_min := policy_max policy\<rparr>, s)
        else (policy\<lparr>policy_min :=
                (if floor < migration_freq b then min (policy_max policy) (migration_freq b)
                 else floor)\<rparr>,
              if admit then
                s\<lparr>boost_info := (boost_info s)[policy_cpu policy :=
                     b\<lparr>boost_state := BOOST, ib_restore_work := Some remaining\<rparr>],
                  ib_nr_cpus_boosted := ib_nr_cpus_boosted s + 1\<rparr>
              else s))"
proof (cases "fb_boost s = UNBOOST")
  case False
  with assms show ?thesis
    by (auto simp add: do_cpu_boost_fb Let_def)
next
  case fb: True
  let ?p1 = "input_boost_floor s policy"
  define r :: u32 where
    "r = ucast ((ucast (ib_adj_duration_ms s) :: u64) - (now - boost_start_time s))"
  define admit where
    "admit \<longleftrightarrow> policy_cpu policy \<noteq> 0 \<and> ib_nr_cpus_boosted s < ib_nr_cpus_to_boost s \<and>
       0 < sint r"
  have d: "duration_ms now s = r"
    by (simp add: duration_ms_def r_def)
  have run: "do_cpu_boost now CPUFREQ_ADJUST policy s =
      (migration_floor (snd (boost_offline_cpu now ?p1 s)) (fst (boost_offline_cpu now ?p1 s)),
       snd (boost_offline_cpu now ?p1 s))"
    using assms fb by (rule do_cpu_boost_adjust)
  show ?thesis
  proof (cases admit)
    case True
    then have c: "ib_nr_cpus_boosted s < ib_nr_cpus_to_boost s" "policy_cpu ?p1 \<noteq> 0"
      "0 < sint (duration_ms now s)"
      by (simp_all add: admit_def d)
    have adm: "boost_offline_cpu now ?p1 s =
        (policy\<lparr>policy_min := min (policy_max policy) (ib_freq s ! 1)\<rparr>,
         s\<lparr>boost_info := (boost_info s)[policy_cpu policy :=
              (boost_info s ! policy_cpu policy)\<lparr>boost_state := BOOST,
                 ib_restore_work := Some r\<rparr>],
           ib_nr_cpus_boosted := ib_nr_cpus_boosted s + 1\<rparr>)"
      unfolding boost_offline_cpu_admits [OF c] d by (simp add: input_boost_floor_min)
    show ?thesis
      unfolding Let_def r_def [symmetric] admit_def [symmetric] run adm
      by (simp add: True fb migration_floor_def per_cpu_def migration_freq_after_admission)
  next
    case False
    then have "policy_cpu ?p1 = 0 \<or> \<not> ib_nr_cpus_boosted s < ib_nr_cpus_to_boost s \<or>
        \<not> 0 < sint (duration_ms now s)"
      by (auto simp add: admit_def d)
    then have adm: "boost_offline_cpu now ?p1 s = (?p1, s)"
      by (rule no_admission_unchanged)
    show ?thesis
      unfolding Let_def r_def [symmetric] admit_def [symmetric] run adm
      by (simp add: False fb migration_floor_def per_cpu_def input_boost_floor_min)
  qed
qed

text \<open>
  C10. The policy notifier returns at once, leaving policy and state as they are, when
  \<open>enabled\<close> is 0 and the policy minimum equals the hardware minimum, and on that ground
  only then: in every other case a \<open>CPUFREQ_ADJUST\<close> call runs the whole arbitration,
  whose result is given here in terms of the state, the policy and the time of the call.
  The remaining time of the cycle is the adjusted duration minus the time since the start
  of the cycle, as a signed 32-bit number; below \<open>2^31\<close> ms it is positive exactly when
  the elapsed time is below the adjusted duration. So with \<open>enabled\<close> at 0 and the
  minimum away from the hardware minimum:
  with no framebuffer boost, the CPU unboosted, no migration frequency and no admission
  open (CPU0, the count at its target, or the time of the cycle used up), the floor goes
  back to the hardware minimum and the state is unchanged;
  a framebuffer boost flag gives the policy maximum;
  a CPU in state \<open>BOOST\<close> gets its input-boost frequency, capped by the maximum;
  a migration frequency above the hardware minimum is the floor, capped by the maximum;
  and while the admission to the input-boost cycle is open for the CPU, it is admitted: it
  is set to \<open>BOOST\<close>, its restore timer is armed with the remaining time, it is counted,
  and its floor is the input-boost frequency of the other CPUs, capped by the maximum.
\<close>

theorem disabled_notifier_paths:
  "(let b = boost_info s ! policy_cpu policy;
        elapsed = now - boost_start_time s;
        remaining = (ucast ((ucast (ib_adj_duration_ms s) :: u64) - elapsed) :: u32);
        admit = (policy_cpu policy \<noteq> 0 \<and> ib_nr_cpus_boosted s < ib_nr_cpus_to_boost s \<and>
                 0 < sint remaining);
        base = (if boost_state b = UNBOOST then cpuinfo_min_freq policy
                else if boost_state b = BOOST
                  then min (policy_max policy) (ib_freq s ! (if policy_cpu policy \<noteq> 0 then 1 else 0))
                else policy_min policy);
        floor = (if admit then min (policy_max policy) (ib_freq s ! 1) else base);
        admitted = s\<lparr>boost_info := (boost_info s)[policy_cpu policy :=
                        b\<lparr>boost_state := BOOST, ib_restore_work := Some remaining\<rparr>],
                     ib_nr_cpus_boosted := ib_nr_cpus_boosted s + 1\<rparr>
    in do_cpu_boost now CPUFREQ_ADJUST policy s =
         (if enabled s = 0 \<and> policy_min policy = cpuinfo_min_freq policy then (policy, s)
          else if fb_boost s \<noteq> UNBOOST then (policy\<lparr>policy_min := policy_max policy\<rparr>, s)
          else (policy\<lparr>policy_min :=
                  (if floor < migration_freq b then min (policy_max policy) (migration_freq b)
                   else floor)\<rparr>,
                if admit then admitted else s)) \<and>
       (val \<noteq> CPUFREQ_ADJUST \<or> (enabled s = 0 \<and> policy_min policy = cpuinfo_min_freq policy) \<longrightarrow>
          do_cpu_boost now val policy s = (policy, s)) \<and>
       (unat elapsed < 2 ^ 31 \<and> unat (ib_adj_duration_ms s) < 2 ^ 31 \<longrightarrow>
          (0 < sint remaining \<longleftrightarrow> unat elapsed < unat (ib_adj_duration_ms s)) \<and>
          (unat elapsed < unat (ib_adj_duration_ms s) \<longrightarrow>
             unat remaining = unat (ib_adj_duration_ms s) - unat elapsed)) \<and>
       (enabled s = 0 \<and> policy_min policy \<noteq> cpuinfo_min_freq policy \<longrightarrow>
          (fb_boost s = UNBOOST \<and> boost_state b = UNBOOST \<and> migration_freq b = 0 \<and> \<not> admit \<longrightarrow>
             do_cpu_boost now CPUFREQ_ADJUST policy s =
               (policy\<lparr>policy_min := cpuinfo_min_freq policy\<rparr>, s)) \<and>
          (fb_boost s \<noteq> UNBOOST \<longrightarrow>
             do_cpu_boost now CPUFREQ_ADJUST policy s =
               (policy\<lparr>policy_min := policy_max policy\<rparr>, s)) \<and>
          (fb_boost s = UNBOOST \<and> boost_state b = BOOST \<and> migration_freq b = 0 \<and> \<not> admit \<longrightarrow>
             do_cpu_boost now CPUFREQ_ADJUST policy s =
               (policy\<lparr>policy_min :=
                  min (policy_max policy) (ib_freq s ! (if policy_cpu policy \<noteq> 0 then 1 else 0))\<rparr>,
                s)) \<and>
          (fb_boost s = UNBOOST \<and> boost_state b = UNBOOST \<and>
           cpuinfo_min_freq policy < migration_freq b \<and> \<not> admit \<longrightarrow>
             do_cpu_boost now CPUFREQ_ADJUST policy s =
               (policy\<lparr>policy_min := min (policy_max policy) (migration_freq b)\<rparr>, s)) \<and>
          (fb_boost s = UNBOOST \<and> migration_freq b = 0 \<and> admit \<longrightarrow>
             do_cpu_boost now CPUFREQ_ADJUST policy s =
               (policy\<lparr>policy_min := min (policy_max policy) (ib_freq s ! 1)\<rparr>, admitted))))"
proof -
  define b where "b = boost_info s ! policy_cpu policy"
  define elapsed where "elapsed = now - boost_start_time s"
  define remaining :: u32 where
    "remaining = ucast ((ucast (ib_adj_duration_ms s) :: u64) - elapsed)"
  define admit where
    "admit \<longleftrightarrow> policy_cpu policy \<noteq> 0 \<and> ib_nr_cpus_boosted s < ib_nr_cpus_to_boost s \<and>
       0 < sint remaining"
  define base where
    "base = (if boost_state b = UNBOOST then cpuinfo_min_freq policy
             else if boost_state b = BOOST
               then min (policy_max policy) (ib_freq s ! (if policy_cpu policy \<noteq> 0 then 1 else 0))
             else policy_min policy)"
  define floor where "floor = (if admit then min (policy_max policy) (ib_freq s ! 1) else base)"
  define admitted where
    "admitted = s\<lparr>boost_info := (boost_info s)[policy_cpu policy :=
                     b\<lparr>boost_state := BOOST, ib_restore_work := Some remaining\<rparr>],
                  ib_nr_cpus_boosted := ib_nr_cpus_boosted s + 1\<rparr>"
  note defs = b_def elapsed_def remaining_def admit_def base_def floor_def admitted_def
  have full: "do_cpu_boost now CPUFREQ_ADJUST policy s =
      (if fb_boost s \<noteq> UNBOOST then (policy\<lparr>policy_min := policy_max policy\<rparr>, s)
       else (policy\<lparr>policy_min :=
               (if floor < migration_freq b then min (policy_max policy) (migration_freq b)
                else floor)\<rparr>,
             if admit then admitted else s))"
    if "enabled s \<noteq> 0 \<or> policy_min policy \<noteq> cpuinfo_min_freq policy"
    using do_cpu_boost_adjust_full [OF that, of now] unfolding Let_def defs .
  have exit: "do_cpu_boost now val policy s = (policy, s)"
    if "val \<noteq> CPUFREQ_ADJUST \<or> (enabled s = 0 \<and> policy_min policy = cpuinfo_min_freq policy)"
    for val
    using that by (auto simp add: do_cpu_boost_def)
  have time: "(0 < sint remaining \<longleftrightarrow> unat elapsed < unat (ib_adj_duration_ms s)) \<and>
      (unat elapsed < unat (ib_adj_duration_ms s) \<longrightarrow>
         unat remaining = unat (ib_adj_duration_ms s) - unat elapsed)"
    if "unat elapsed < 2 ^ 31 \<and> unat (ib_adj_duration_ms s) < 2 ^ 31"
    using that duration_ms_no_wrap [of now s]
    unfolding duration_ms_def remaining_def elapsed_def by blast
  have first: "do_cpu_boost now CPUFREQ_ADJUST policy s =
      (if enabled s = 0 \<and> policy_min policy = cpuinfo_min_freq policy then (policy, s)
       else if fb_boost s \<noteq> UNBOOST then (policy\<lparr>policy_min := policy_max policy\<rparr>, s)
       else (policy\<lparr>policy_min :=
               (if floor < migration_freq b then min (policy_max policy) (migration_freq b)
                else floor)\<rparr>,
             if admit then admitted else s))"
  proof (cases "enabled s = 0 \<and> policy_min policy = cpuinfo_min_freq policy")
    case True
    then show ?thesis by (simp add: exit)
  next
    case False
    then have "enabled s \<noteq> 0 \<or> policy_min policy \<noteq> cpuinfo_min_freq policy"
      by blast
    then show ?thesis
      unfolding full [OF \<open>enabled s \<noteq> 0 \<or> policy_min policy \<noteq> cpuinfo_min_freq policy\<close>]
      by (simp only: False if_False)
  qed
  have off: "(fb_boost s = UNBOOST \<and> boost_state b = UNBOOST \<and> migration_freq b = 0 \<and> \<not> admit \<longrightarrow>
         do_cpu_boost now CPUFREQ_ADJUST policy s =
           (policy\<lparr>policy_min := cpuinfo_min_freq policy\<rparr>, s)) \<and>
      (fb_boost s \<noteq> UNBOOST \<longrightarrow>
         do_cpu_boost now CPUFREQ_ADJUST policy s =
           (policy\<lparr>policy_min := policy_max policy\<rparr>, s)) \<and>
      (fb_boost s = UNBOOST \<and> boost_state b = BOOST \<and> migration_freq b = 0 \<and> \<not> admit \<longrightarrow>
         do_cpu_boost now CPUFREQ_ADJUST policy s =
           (policy\<lparr>policy_min :=
              min (policy_max policy) (ib_freq s ! (if policy_cpu policy \<noteq> 0 then 1 else 0))\<rparr>,
            s)) \<and>
      (fb_boost s = UNBOOST \<and> boost_state b = UNBOOST \<and>
       cpuinfo_min_freq policy < migration_freq b \<and> \<not> admit \<longrightarrow>
         do_cpu_boost now CPUFREQ_ADJUST policy s =
           (policy\<lparr>policy_min := min (policy_max policy) (migration_freq b)\<rparr>, s)) \<and>
      (fb_boost s = UNBOOST \<and> migration_freq b = 0 \<and> admit \<longrightarrow>
         do_cpu_boost now CPUFREQ_ADJUST policy s =
           (policy\<lparr>policy_min := min (policy_max policy) (ib_freq s ! 1)\<rparr>, admitted))"
    if "enabled s = 0 \<and> policy_min policy \<noteq> cpuinfo_min_freq policy"
  proof -
    from that have "enabled s \<noteq> 0 \<or> policy_min policy \<noteq> cpuinfo_min_freq policy"
      by blast
    note f = full [OF this]
    show ?thesis
      unfolding f by (simp add: floor_def base_def)
  qed
  show ?thesis
    unfolding Let_def defs [symmetric]
    using first exit time off by blast
qed

lemma demo_disabled_states_reachable:
  "reachable 4 demo_admitted_disabled" "reachable 4 demo_mailbox_applied"
  "observable 4 demo_disabling"
proof -
  have "possible (Policy_notifier 5100 CPUFREQ_ADJUST (demo_policy 1 300000 1200000))
      demo_cycle_disabled"
    by code_simp
  with demo_states_reachable(2)
  have "reachable 4 (perform (Policy_notifier 5100 CPUFREQ_ADJUST (demo_policy 1 300000 1200000))
      demo_cycle_disabled)"
    by (rule reachable.step)
  then show "reachable 4 demo_admitted_disabled"
    by (simp only: demo_admitted_disabled_def)
  have "reachable 4 (perform_all demo_mailbox_actions demo_cycle_started)"
    by (rule reachable_perform_all [OF demo_states_reachable(1)]) code_simp
  then show "reachable 4 demo_mailbox_applied"
    by (simp only: demo_mailbox_applied_def)
  have "reachable 4 (perform_all (take 1 demo_display_actions) demo_cycle_started)"
    by (rule reachable_perform_all [OF demo_states_reachable(1)]) code_simp
  then have "reachable 4 demo_display_on"
    by (simp only: demo_display_on_def)
  then have "observable 4 (demo_display_on\<lparr>enabled := 0\<rparr>)"
    by (rule observable.stored)
  then show "observable 4 demo_disabling"
    by (simp only: demo_disabling_def)
qed

theorem disabled_notifier_paths_witness:
  "reachable 4 demo_cycle_disabled \<and> enabled demo_cycle_disabled = 0 \<and>
   reachable 4 demo_admitted_disabled \<and> enabled demo_admitted_disabled = 0 \<and>
   reachable 4 demo_mailbox_applied \<and> enabled demo_mailbox_applied = 0 \<and>
   observable 4 demo_disabling \<and> enabled demo_disabling = 0 \<and>
   reachable 4 demo_cycle_started \<and> enabled demo_cycle_started = 1 \<and>
   do_cpu_boost 5100 CPUFREQ_ADJUST (demo_policy 1 300000 300000) demo_cycle_disabled =
     (demo_policy 1 300000 300000, demo_cycle_disabled) \<and>
   policy_min (fst (do_cpu_boost 5100 CPUFREQ_ADJUST (demo_policy 1 300000 300000)
     demo_cycle_started)) = 1200000 \<and>
   do_cpu_boost 10000 CPUFREQ_ADJUST (demo_policy 1 300000 1200000) demo_cycle_disabled =
     ((demo_policy 1 300000 1200000)\<lparr>policy_min := 300000\<rparr>, demo_cycle_disabled) \<and>
   policy_min (fst (do_cpu_boost 5100 CPUFREQ_ADJUST (demo_policy 1 300000 1200000)
     demo_cycle_disabled)) = 1200000 \<and>
   snd (do_cpu_boost 5100 CPUFREQ_ADJUST (demo_policy 1 300000 1200000) demo_cycle_disabled) =
     demo_admitted_disabled \<and>
   boost_state (per_cpu demo_admitted_disabled 1) = BOOST \<and>
   ib_restore_work (per_cpu demo_admitted_disabled 1) = Some 950 \<and>
   do_cpu_boost 5100 CPUFREQ_ADJUST (demo_policy 0 1500000 1500000) demo_disabling =
     ((demo_policy 0 1500000 1500000)\<lparr>policy_min := 2000000\<rparr>, demo_disabling) \<and>
   do_cpu_boost 5200 CPUFREQ_ADJUST (demo_policy 1 300000 600000) demo_admitted_disabled =
     ((demo_policy 1 300000 600000)\<lparr>policy_min := 1200000\<rparr>, demo_admitted_disabled) \<and>
   migration_freq (per_cpu demo_mailbox_applied 2) = 1200000 \<and>
   do_cpu_boost 10000 CPUFREQ_ADJUST (demo_policy 2 300000 600000) demo_mailbox_applied =
     ((demo_policy 2 300000 600000)\<lparr>policy_min := 1200000\<rparr>, demo_mailbox_applied)"
proof -
  let ?min1 = "demo_policy 1 300000 300000" and ?hi1 = "demo_policy 1 300000 1200000"
  let ?mid1 = "demo_policy 1 300000 600000" and ?hi0 = "demo_policy 0 1500000 1500000"
  let ?mid2 = "demo_policy 2 300000 600000"
  have en: "enabled demo_cycle_disabled = 0" "enabled demo_admitted_disabled = 0"
    "enabled demo_mailbox_applied = 0" "enabled demo_disabling = 0"
    "enabled demo_cycle_started = 1"
    by code_simp+
  \<comment> \<open>the early return, although the admission is open\<close>
  have r1: "do_cpu_boost 5100 CPUFREQ_ADJUST ?min1 demo_cycle_disabled =
      (?min1, demo_cycle_disabled)"
    by (rule disabled_notifier_paths
        [where s = demo_cycle_disabled and policy = ?min1 and now = 5100
           and val = CPUFREQ_ADJUST, unfolded Let_def,
         THEN conjunct2, THEN conjunct1, THEN mp]) code_simp
  \<comment> \<open>no early return at the hardware minimum while the driver is enabled\<close>
  have r2: "policy_min (fst (do_cpu_boost 5100 CPUFREQ_ADJUST ?min1 demo_cycle_started)) = 1200000"
    unfolding disabled_notifier_paths
        [where s = demo_cycle_started and policy = ?min1 and now = 5100, unfolded Let_def,
         THEN conjunct1]
    by code_simp
  \<comment> \<open>the time of the cycle is used up: back to the hardware minimum\<close>
  have r3: "do_cpu_boost 10000 CPUFREQ_ADJUST ?hi1 demo_cycle_disabled =
      (?hi1\<lparr>policy_min := cpuinfo_min_freq ?hi1\<rparr>, demo_cycle_disabled)"
    by (rule disabled_notifier_paths
        [where s = demo_cycle_disabled and policy = ?hi1 and now = 10000, unfolded Let_def,
         THEN conjunct2, THEN conjunct2, THEN conjunct2, THEN mp, THEN conjunct1, THEN mp])
      code_simp+
  \<comment> \<open>the admission is still open\<close>
  have r4: "do_cpu_boost 5100 CPUFREQ_ADJUST ?hi1 demo_cycle_disabled =
      (?hi1\<lparr>policy_min := min (policy_max ?hi1) (ib_freq demo_cycle_disabled ! 1)\<rparr>,
       demo_cycle_disabled\<lparr>boost_info := (boost_info demo_cycle_disabled)[policy_cpu ?hi1 :=
           (boost_info demo_cycle_disabled ! policy_cpu ?hi1)\<lparr>boost_state := BOOST,
              ib_restore_work := Some (ucast ((ucast (ib_adj_duration_ms demo_cycle_disabled) :: u64) -
                (5100 - boost_start_time demo_cycle_disabled)))\<rparr>],
         ib_nr_cpus_boosted := ib_nr_cpus_boosted demo_cycle_disabled + 1\<rparr>)"
    by (rule disabled_notifier_paths
        [where s = demo_cycle_disabled and policy = ?hi1 and now = 5100, unfolded Let_def,
         THEN conjunct2, THEN conjunct2, THEN conjunct2, THEN mp,
         THEN conjunct2, THEN conjunct2, THEN conjunct2, THEN conjunct2, THEN mp])
      code_simp+
  have v4: "policy_min (fst (do_cpu_boost 5100 CPUFREQ_ADJUST ?hi1 demo_cycle_disabled)) = 1200000"
    unfolding r4 by code_simp
  have s4: "snd (do_cpu_boost 5100 CPUFREQ_ADJUST ?hi1 demo_cycle_disabled) =
      demo_admitted_disabled"
    by (simp add: demo_admitted_disabled_def)
  have b4: "boost_state (per_cpu demo_admitted_disabled 1) = BOOST"
    "ib_restore_work (per_cpu demo_admitted_disabled 1) = Some 950"
    unfolding s4 [symmetric] r4 by code_simp+
  \<comment> \<open>a framebuffer boost flag\<close>
  have r5: "do_cpu_boost 5100 CPUFREQ_ADJUST ?hi0 demo_disabling =
      (?hi0\<lparr>policy_min := policy_max ?hi0\<rparr>, demo_disabling)"
    by (rule disabled_notifier_paths
        [where s = demo_disabling and policy = ?hi0 and now = 5100, unfolded Let_def,
         THEN conjunct2, THEN conjunct2, THEN conjunct2, THEN mp,
         THEN conjunct2, THEN conjunct1, THEN mp])
      code_simp+
  \<comment> \<open>a CPU left in the state BOOST\<close>
  have r6: "do_cpu_boost 5200 CPUFREQ_ADJUST ?mid1 demo_admitted_disabled =
      (?mid1\<lparr>policy_min := min (policy_max ?mid1)
         (ib_freq demo_admitted_disabled ! (if policy_cpu ?mid1 \<noteq> 0 then 1 else 0))\<rparr>,
       demo_admitted_disabled)"
    by (rule disabled_notifier_paths
        [where s = demo_admitted_disabled and policy = ?mid1 and now = 5200, unfolded Let_def,
         THEN conjunct2, THEN conjunct2, THEN conjunct2, THEN mp,
         THEN conjunct2, THEN conjunct2, THEN conjunct1, THEN mp])
      code_simp+
  \<comment> \<open>a migration frequency\<close>
  have r7: "do_cpu_boost 10000 CPUFREQ_ADJUST ?mid2 demo_mailbox_applied =
      (?mid2\<lparr>policy_min := min (policy_max ?mid2)
         (migration_freq (boost_info demo_mailbox_applied ! policy_cpu ?mid2))\<rparr>,
       demo_mailbox_applied)"
    by (rule disabled_notifier_paths
        [where s = demo_mailbox_applied and policy = ?mid2 and now = 10000, unfolded Let_def,
         THEN conjunct2, THEN conjunct2, THEN conjunct2, THEN mp,
         THEN conjunct2, THEN conjunct2, THEN conjunct2, THEN conjunct1, THEN mp])
      code_simp+
  have v: "cpuinfo_min_freq ?hi1 = 300000" "policy_max ?hi0 = 2000000"
    "min (policy_max ?mid1)
       (ib_freq demo_admitted_disabled ! (if policy_cpu ?mid1 \<noteq> 0 then 1 else 0)) = 1200000"
    "min (policy_max ?mid2)
       (migration_freq (boost_info demo_mailbox_applied ! policy_cpu ?mid2)) = 1200000"
    "migration_freq (per_cpu demo_mailbox_applied 2) = 1200000"
    by code_simp+
  show ?thesis
    using demo_states_reachable demo_disabled_states_reachable en r1 r2
      r3 [unfolded v] v4 s4 b4 r5 [unfolded v] r6 [unfolded v] r7 [unfolded v] v(5)
    by (intro conjI)
qed

section \<open>Framebuffer boost\<close>

lemma notifier_calls_during_fb_boost:
  assumes "\<forall>a \<in> set calls. is_policy_notifier a" and "fb_boost s \<noteq> UNBOOST"
  shows "perform_all calls s = s"
  using assms
proof (induction calls)
  case Nil
  show ?case by simp
next
  case (Cons a calls)
  from Cons.prems(1) obtain now val policy where a: "a = Policy_notifier now val policy"
    by (cases a) simp_all
  have "perform a s = s"
    using Cons.prems(2) by (simp add: a do_cpu_boost_fb)
  with Cons show ?case by simp
qed

lemma perform_all_append:
  "perform_all (xs @ ys) s = perform_all ys (perform_all xs s)"
  by (induction xs arbitrary: s) simp_all

text \<open>
  C2, as the driver has it. While the framebuffer boost is active or cooling down, a call
  of the policy notifier changes nothing of the state: on \<open>CPUFREQ_ADJUST\<close> it only
  sets the floor to the policy maximum (unless the disabled driver returns early). The
  unblank event, with the driver enabled and no boost in progress, clears \<open>suspended\<close>,
  makes the boost active and queues the framebuffer work with no delay. The framebuffer
  work in the active state requests a policy update for every online CPU, moves to the
  cool-down and arms its timer with 900 ms; it leaves every per-CPU record and the running
  flag of the input cycle alone. When it runs in the cool-down state, it switches the boost
  off and unboosts all CPUs: every CPU's input-boost state becomes \<open>UNBOOST\<close>, the
  running flag is cleared and a policy update is requested for every online CPU; each
  CPU's migration frequency and timers are left as that step finds them. Put together,
  when nothing but policy notifier calls happens between the unblank event and the end of
  the cool-down, the state at the end is the state before the unblank event with
  \<open>suspended\<close> cleared, every CPU's input-boost state \<open>UNBOOST\<close>, the running flag
  cleared and the two rounds of policy update requests logged; every migration frequency
  and every timer of a CPU is what it was.
\<close>

theorem fb_boost_state_effects:
  "(fb_boost s \<noteq> UNBOOST \<longrightarrow>
      do_cpu_boost now val policy s =
        (if val = CPUFREQ_ADJUST \<and>
            \<not> (enabled s = 0 \<and> policy_min policy = cpuinfo_min_freq policy)
         then (policy\<lparr>policy_min := policy_max policy\<rparr>, s) else (policy, s))) \<and>
   (enabled s \<noteq> 0 \<and> fb_boost s = UNBOOST \<longrightarrow>
      fb_blank_boost FB_EVENT_BLANK FB_BLANK_UNBLANK s =
        s\<lparr>suspended := False, fb_boost := BOOST, fb_boost_work := Some 0\<rparr>) \<and>
   (fb_boost s = BOOST \<longrightarrow>
      fb_boost_main online s =
        s\<lparr>policy_updates := policy_updates s @ filter online [0..<length (boost_info s)],
          fb_boost := WAITING, fb_boost_work := Some 900\<rparr>) \<and>
   (fb_boost s = WAITING \<longrightarrow>
      fb_boost_main online s =
        s\<lparr>fb_boost := UNBOOST,
          boost_info := map (\<lambda>b. b\<lparr>boost_state := UNBOOST\<rparr>) (boost_info s),
          policy_updates := policy_updates s @ filter online [0..<length (boost_info s)],
          ib_running := False\<rparr>) \<and>
   (enabled s \<noteq> 0 \<and> fb_boost s = UNBOOST \<and>
    (\<forall>a \<in> set calls_active \<union> set calls_cooldown. is_policy_notifier a) \<longrightarrow>
      perform_all
        (Fb_notifier FB_EVENT_BLANK FB_BLANK_UNBLANK # calls_active @
         Fb_boost_work online # calls_cooldown @ [Fb_boost_work online_later]) s =
        s\<lparr>suspended := False, fb_boost := UNBOOST, fb_boost_work := None,
          boost_info := map (\<lambda>b. b\<lparr>boost_state := UNBOOST\<rparr>) (boost_info s),
          policy_updates := policy_updates s @ filter online [0..<length (boost_info s)] @
            filter online_later [0..<length (boost_info s)],
          ib_running := False\<rparr>)"
proof (intro conjI impI)
  assume "fb_boost s \<noteq> UNBOOST"
  then show "do_cpu_boost now val policy s =
      (if val = CPUFREQ_ADJUST \<and>
          \<not> (enabled s = 0 \<and> policy_min policy = cpuinfo_min_freq policy)
       then (policy\<lparr>policy_min := policy_max policy\<rparr>, s) else (policy, s))"
    by (auto simp add: do_cpu_boost_fb)
next
  assume "enabled s \<noteq> 0 \<and> fb_boost s = UNBOOST"
  then show "fb_blank_boost FB_EVENT_BLANK FB_BLANK_UNBLANK s =
      s\<lparr>suspended := False, fb_boost := BOOST, fb_boost_work := Some 0\<rparr>"
    by (simp add: fb_blank_boost_def queue_delayed_work_def Let_def)
next
  assume "fb_boost s = BOOST"
  then show "fb_boost_main online s =
      s\<lparr>policy_updates := policy_updates s @ filter online [0..<length (boost_info s)],
        fb_boost := WAITING, fb_boost_work := Some 900\<rparr>"
    by (simp add: fb_boost_main_result FB_BOOST_MS_def)
next
  assume "fb_boost s = WAITING"
  then show "fb_boost_main online s =
      s\<lparr>fb_boost := UNBOOST,
        boost_info := map (\<lambda>b. b\<lparr>boost_state := UNBOOST\<rparr>) (boost_info s),
        policy_updates := policy_updates s @ filter online [0..<length (boost_info s)],
        ib_running := False\<rparr>"
    by (simp add: fb_boost_main_result)
next
  assume *: "enabled s \<noteq> 0 \<and> fb_boost s = UNBOOST \<and>
    (\<forall>a \<in> set calls_active \<union> set calls_cooldown. is_policy_notifier a)"
  define s1 where "s1 = s\<lparr>suspended := False, fb_boost := BOOST, fb_boost_work := Some 0\<rparr>"
  define s2 where
    "s2 = s\<lparr>suspended := False, fb_boost_work := Some 900, fb_boost := WAITING,
       policy_updates := policy_updates s @ filter online [0..<length (boost_info s)]\<rparr>"
  have a: "perform (Fb_notifier FB_EVENT_BLANK FB_BLANK_UNBLANK) s = s1"
    using * by (simp add: s1_def fb_blank_boost_def queue_delayed_work_def Let_def)
  have b: "perform_all calls_active s1 = s1"
    using * by (intro notifier_calls_during_fb_boost) (simp_all add: s1_def)
  have c: "perform (Fb_boost_work online) s1 = s2"
    by (simp add: s1_def s2_def fb_boost_main_result FB_BOOST_MS_def)
  have d: "perform_all calls_cooldown s2 = s2"
    using * by (intro notifier_calls_during_fb_boost) (simp_all add: s2_def)
  have e: "perform (Fb_boost_work online_later) s2 =
      s\<lparr>suspended := False, fb_boost := UNBOOST, fb_boost_work := None,
        boost_info := map (\<lambda>b. b\<lparr>boost_state := UNBOOST\<rparr>) (boost_info s),
        policy_updates := policy_updates s @ filter online [0..<length (boost_info s)] @
          filter online_later [0..<length (boost_info s)],
        ib_running := False\<rparr>"
    by (simp add: s2_def fb_boost_main_result)
  show "perform_all
      (Fb_notifier FB_EVENT_BLANK FB_BLANK_UNBLANK # calls_active @
       Fb_boost_work online # calls_cooldown @ [Fb_boost_work online_later]) s =
      s\<lparr>suspended := False, fb_boost := UNBOOST, fb_boost_work := None,
        boost_info := map (\<lambda>b. b\<lparr>boost_state := UNBOOST\<rparr>) (boost_info s),
        policy_updates := policy_updates s @ filter online [0..<length (boost_info s)] @
          filter online_later [0..<length (boost_info s)],
        ib_running := False\<rparr>"
    by (simp only: perform_all.simps perform_all_append a b c d e)
qed

theorem fb_boost_state_effects_witness:
  "reachable 4 demo_cycle_and_migration \<and>
   all_possible demo_display_window demo_cycle_and_migration \<and>
   enabled demo_cycle_and_migration \<noteq> 0 \<and> fb_boost demo_cycle_and_migration = UNBOOST \<and>
   boost_state (per_cpu demo_cycle_and_migration 0) = BOOST \<and>
   ib_running demo_cycle_and_migration \<and>
   ib_restore_work (per_cpu demo_cycle_and_migration 0) = Some 1060 \<and>
   migration_freq (per_cpu demo_cycle_and_migration 2) = 1200000 \<and>
   mig_boost_rem (per_cpu demo_cycle_and_migration 2) = Some 20 \<and>
   do_cpu_boost 5010 CPUFREQ_ADJUST (demo_policy 0 1500000 1500000)
     (fb_blank_boost FB_EVENT_BLANK FB_BLANK_UNBLANK demo_cycle_and_migration) =
     ((demo_policy 0 1500000 1500000)\<lparr>policy_min := 2000000\<rparr>,
      fb_blank_boost FB_EVENT_BLANK FB_BLANK_UNBLANK demo_cycle_and_migration) \<and>
   fb_boost_main only_cpu0_online
     (fb_blank_boost FB_EVENT_BLANK FB_BLANK_UNBLANK demo_cycle_and_migration) =
     (fb_blank_boost FB_EVENT_BLANK FB_BLANK_UNBLANK demo_cycle_and_migration)
       \<lparr>policy_updates := policy_updates demo_cycle_and_migration @ [0],
         fb_boost := WAITING, fb_boost_work := Some 900\<rparr> \<and>
   boost_info (fb_boost_main all_online (fb_boost_main only_cpu0_online
     (fb_blank_boost FB_EVENT_BLANK FB_BLANK_UNBLANK demo_cycle_and_migration))) =
     map (\<lambda>b. b\<lparr>boost_state := UNBOOST\<rparr>) (boost_info demo_cycle_and_migration) \<and>
   fb_boost (perform_all demo_display_window demo_cycle_and_migration) = UNBOOST \<and>
   boost_state (per_cpu (perform_all demo_display_window demo_cycle_and_migration) 0) = UNBOOST \<and>
   \<not> ib_running (perform_all demo_display_window demo_cycle_and_migration) \<and>
   ib_restore_work (per_cpu (perform_all demo_display_window demo_cycle_and_migration) 0) =
     Some 1060 \<and>
   migration_freq (per_cpu (perform_all demo_display_window demo_cycle_and_migration) 2) =
     1200000 \<and>
   mig_boost_rem (per_cpu (perform_all demo_display_window demo_cycle_and_migration) 2) =
     Some 20 \<and>
   policy_updates (perform_all demo_display_window demo_cycle_and_migration) =
     policy_updates demo_cycle_and_migration @ [0] @ [0, 1, 2, 3]"
proof -
  let ?s = demo_cycle_and_migration and ?p0 = "demo_policy 0 1500000 1500000"
  have "reachable 4 (perform_all demo_migration_boost_actions demo_cycle_started)"
    by (rule reachable_perform_all [OF demo_states_reachable(1)]) code_simp
  then have r: "reachable 4 ?s"
    by (simp only: demo_cycle_and_migration_def)
  have p: "all_possible demo_display_window ?s"
    by code_simp
  have before: "enabled ?s \<noteq> 0" "fb_boost ?s = UNBOOST" "boost_state (per_cpu ?s 0) = BOOST"
    "ib_running ?s" "ib_restore_work (per_cpu ?s 0) = Some 1060"
    "migration_freq (per_cpu ?s 2) = 1200000" "mig_boost_rem (per_cpu ?s 2) = Some 20"
    by code_simp+
  have calls: "\<forall>a \<in> set demo_calls_active \<union> set demo_calls_cooldown. is_policy_notifier a"
    by (simp add: demo_calls_active_def demo_calls_cooldown_def)
  have h: "enabled ?s \<noteq> 0 \<and> fb_boost ?s = UNBOOST"
    using before(1,2) by blast
  have active: "fb_blank_boost FB_EVENT_BLANK FB_BLANK_UNBLANK ?s =
      ?s\<lparr>suspended := False, fb_boost := BOOST, fb_boost_work := Some 0\<rparr>"
    using h by (rule fb_boost_state_effects
        [where s = ?s, THEN conjunct2, THEN conjunct1, THEN mp])
  have on: "fb_boost (?s\<lparr>suspended := False, fb_boost := BOOST, fb_boost_work := Some 0\<rparr>)
      \<noteq> UNBOOST"
    by simp
  have floor: "do_cpu_boost 5010 CPUFREQ_ADJUST ?p0
        (fb_blank_boost FB_EVENT_BLANK FB_BLANK_UNBLANK ?s) =
      (?p0\<lparr>policy_min := 2000000\<rparr>, fb_blank_boost FB_EVENT_BLANK FB_BLANK_UNBLANK ?s)"
    unfolding active
    unfolding fb_boost_state_effects
        [where s = "?s\<lparr>suspended := False, fb_boost := BOOST, fb_boost_work := Some 0\<rparr>"
           and now = 5010 and val = CPUFREQ_ADJUST and policy = ?p0,
         THEN conjunct1, THEN mp, OF on]
    by code_simp
  let ?a = "fb_blank_boost FB_EVENT_BLANK FB_BLANK_UNBLANK ?s"
  have fa: "fb_boost ?a = BOOST" and fb: "fb_boost (fb_boost_main only_cpu0_online ?a) = WAITING"
    by code_simp+
  have v: "policy_updates ?a @ filter only_cpu0_online [0..<length (boost_info ?a)] =
      policy_updates ?s @ [0]"
    by code_simp
  have task: "fb_boost_main only_cpu0_online ?a =
      ?a\<lparr>policy_updates := policy_updates ?s @ [0], fb_boost := WAITING,
         fb_boost_work := Some 900\<rparr>"
    using fb_boost_state_effects
        [where s = ?a and online = only_cpu0_online,
         THEN conjunct2, THEN conjunct2, THEN conjunct1, THEN mp, OF fa]
    unfolding v .
  have "fb_boost_main all_online (fb_boost_main only_cpu0_online ?a) =
      (fb_boost_main only_cpu0_online ?a)\<lparr>fb_boost := UNBOOST,
        boost_info := map (\<lambda>b. b\<lparr>boost_state := UNBOOST\<rparr>)
          (boost_info (fb_boost_main only_cpu0_online ?a)),
        policy_updates := policy_updates (fb_boost_main only_cpu0_online ?a) @
          filter all_online [0..<length (boost_info (fb_boost_main only_cpu0_online ?a))],
        ib_running := False\<rparr>"
    using fb by (rule fb_boost_state_effects
        [where s = "fb_boost_main only_cpu0_online ?a" and online = all_online,
         THEN conjunct2, THEN conjunct2, THEN conjunct2, THEN conjunct1, THEN mp])
  then have "boost_info (fb_boost_main all_online (fb_boost_main only_cpu0_online ?a)) =
      map (\<lambda>b. b\<lparr>boost_state := UNBOOST\<rparr>)
        (boost_info (fb_boost_main only_cpu0_online ?a))"
    by simp
  moreover have "boost_info (fb_boost_main only_cpu0_online ?a) = boost_info ?s"
    by (subst task) (simp add: active)
  ultimately have cool:
    "boost_info (fb_boost_main all_online (fb_boost_main only_cpu0_online ?a)) =
      map (\<lambda>b. b\<lparr>boost_state := UNBOOST\<rparr>) (boost_info ?s)"
    by (simp only:)
  have "enabled ?s \<noteq> 0 \<and> fb_boost ?s = UNBOOST \<and>
      (\<forall>a \<in> set demo_calls_active \<union> set demo_calls_cooldown. is_policy_notifier a)"
    using h calls by blast
  then have "perform_all
      (Fb_notifier FB_EVENT_BLANK FB_BLANK_UNBLANK # demo_calls_active @
       Fb_boost_work only_cpu0_online # demo_calls_cooldown @ [Fb_boost_work all_online]) ?s =
      ?s\<lparr>suspended := False, fb_boost := UNBOOST, fb_boost_work := None,
        boost_info := map (\<lambda>b. b\<lparr>boost_state := UNBOOST\<rparr>) (boost_info ?s),
        policy_updates := policy_updates ?s @
          filter only_cpu0_online [0..<length (boost_info ?s)] @
          filter all_online [0..<length (boost_info ?s)],
        ib_running := False\<rparr>"
    by (rule fb_boost_state_effects
        [where s = ?s and calls_active = demo_calls_active
           and calls_cooldown = demo_calls_cooldown and online = only_cpu0_online
           and online_later = all_online,
         THEN conjunct2, THEN conjunct2, THEN conjunct2, THEN conjunct2, THEN mp])
  then have eq: "perform_all demo_display_window ?s =
      ?s\<lparr>suspended := False, fb_boost := UNBOOST, fb_boost_work := None,
        boost_info := map (\<lambda>b. b\<lparr>boost_state := UNBOOST\<rparr>) (boost_info ?s),
        policy_updates := policy_updates ?s @
          filter only_cpu0_online [0..<length (boost_info ?s)] @
          filter all_online [0..<length (boost_info ?s)],
        ib_running := False\<rparr>"
    by (simp only: demo_display_window_def)
  have after: "fb_boost (perform_all demo_display_window ?s) = UNBOOST"
    "boost_state (per_cpu (perform_all demo_display_window ?s) 0) = UNBOOST"
    "\<not> ib_running (perform_all demo_display_window ?s)"
    "ib_restore_work (per_cpu (perform_all demo_display_window ?s) 0) = Some 1060"
    "migration_freq (per_cpu (perform_all demo_display_window ?s) 2) = 1200000"
    "mig_boost_rem (per_cpu (perform_all demo_display_window ?s) 2) = Some 20"
    "policy_updates (perform_all demo_display_window ?s) =
       policy_updates ?s @ [0] @ [0, 1, 2, 3]"
    unfolding eq by code_simp+
  show ?thesis
    using r p before floor task cool after by (intro conjI)
qed

text \<open>An input-boost cycle is running, with CPU0 boosted, when the display is unblanked.
  When the cool-down ends, CPU0 is no longer boosted and the cycle no longer runs.\<close>

theorem fb_boost_clears_input_boost_counterexample:
  "all_possible demo_cycle_actions (cpu_ib_init 4) \<and>
   boost_state (per_cpu demo_cycle_started 0) = BOOST \<and> ib_running demo_cycle_started \<and>
   fb_boost demo_cycle_started = UNBOOST \<and>
   all_possible demo_display_actions demo_cycle_started \<and>
   fb_boost (perform_all (take 1 demo_display_actions) demo_cycle_started) = BOOST \<and>
   fb_boost (perform_all (take 2 demo_display_actions) demo_cycle_started) = WAITING \<and>
   fb_boost (perform_all demo_display_actions demo_cycle_started) = UNBOOST \<and>
   boost_state (per_cpu (perform_all demo_display_actions demo_cycle_started) 0) = UNBOOST \<and>
   \<not> ib_running (perform_all demo_display_actions demo_cycle_started)"
  by code_simp

section \<open>The driver switched off in the middle of an input-boost cycle\<close>

text \<open>
  C3. Writing 0 to \<open>enabled\<close> is meant to stop everything: every timer cancelled, every
  field at its baseline, every CPU's floor at the hardware minimum. The driver does not do
  that on the following run. A touch starts an input-boost cycle at time 5000 with CPU0
  the only CPU online, so the cycle targets two CPUs for 1050 ms; then 0 is written to
  \<open>enabled\<close>. \<open>stop_remove_all_boosts\<close> leaves the counters of the cycle at 1 of 2 and its
  start time and duration as they are. At time 5100 the policy notifier runs for CPU1 with
  a policy minimum of 1.2 GHz: it puts CPU1 in the state \<open>BOOST\<close>, arms its restore timer
  with 950 ms and returns a floor of 1.2 GHz, not the hardware minimum of 300 MHz.
  Likewise a migration request that is in the mailbox of CPU2 when 0 is written stays
  there; the sync thread applies it afterwards, which sets the migration frequency of CPU2
  to 1.2 GHz and arms its removal timer, and the floor of CPU2 is then 1.2 GHz.
\<close>

theorem stop_does_not_stop_admission:
  "reachable 4 demo_cycle_started \<and> enabled demo_cycle_started = 1 \<and>
   demo_cycle_disabled = snd (enabled_write only_cpu0_online [0] 2 demo_cycle_started) \<and>
   enabled demo_cycle_disabled = 0 \<and>
   ib_nr_cpus_boosted demo_cycle_disabled = 1 \<and> ib_nr_cpus_to_boost demo_cycle_disabled = 2 \<and>
   boost_start_time demo_cycle_disabled = 5000 \<and> ib_adj_duration_ms demo_cycle_disabled = 1050 \<and>
   boost_state (per_cpu demo_cycle_disabled 1) = UNBOOST \<and>
   ib_restore_work (per_cpu demo_cycle_disabled 1) = None \<and>
   cpuinfo_min_freq (demo_policy 1 300000 1200000) = 300000 \<and>
   policy_min (fst (do_cpu_boost 5100 CPUFREQ_ADJUST (demo_policy 1 300000 1200000)
      demo_cycle_disabled)) = 1200000 \<and>
   boost_state (per_cpu (snd (do_cpu_boost 5100 CPUFREQ_ADJUST (demo_policy 1 300000 1200000)
      demo_cycle_disabled)) 1) = BOOST \<and>
   ib_restore_work (per_cpu (snd (do_cpu_boost 5100 CPUFREQ_ADJUST (demo_policy 1 300000 1200000)
      demo_cycle_disabled)) 1) = Some 950 \<and>
   all_possible demo_mailbox_actions demo_cycle_started \<and>
   pending (per_cpu (perform_all (take 3 demo_mailbox_actions) demo_cycle_started) 2) \<and>
   enabled (perform_all (take 3 demo_mailbox_actions) demo_cycle_started) = 0 \<and>
   enabled demo_mailbox_applied = 0 \<and>
   migration_freq (per_cpu demo_mailbox_applied 2) = 1200000 \<and>
   mig_boost_rem (per_cpu demo_mailbox_applied 2) = Some 20 \<and>
   cpuinfo_min_freq (demo_policy 2 300000 600000) = 300000 \<and>
   policy_min (fst (do_cpu_boost 10000 CPUFREQ_ADJUST (demo_policy 2 300000 600000)
      demo_mailbox_applied)) = 1200000"
proof -
  have "enabled demo_cycle_started = 1 \<and>
   demo_cycle_disabled = snd (enabled_write only_cpu0_online [0] 2 demo_cycle_started) \<and>
   enabled demo_cycle_disabled = 0 \<and>
   ib_nr_cpus_boosted demo_cycle_disabled = 1 \<and> ib_nr_cpus_to_boost demo_cycle_disabled = 2 \<and>
   boost_start_time demo_cycle_disabled = 5000 \<and> ib_adj_duration_ms demo_cycle_disabled = 1050 \<and>
   boost_state (per_cpu demo_cycle_disabled 1) = UNBOOST \<and>
   ib_restore_work (per_cpu demo_cycle_disabled 1) = None \<and>
   cpuinfo_min_freq (demo_policy 1 300000 1200000) = 300000 \<and>
   policy_min (fst (do_cpu_boost 5100 CPUFREQ_ADJUST (demo_policy 1 300000 1200000)
      demo_cycle_disabled)) = 1200000 \<and>
   boost_state (per_cpu (snd (do_cpu_boost 5100 CPUFREQ_ADJUST (demo_policy 1 300000 1200000)
      demo_cycle_disabled)) 1) = BOOST \<and>
   ib_restore_work (per_cpu (snd (do_cpu_boost 5100 CPUFREQ_ADJUST (demo_policy 1 300000 1200000)
      demo_cycle_disabled)) 1) = Some 950 \<and>
   all_possible demo_mailbox_actions demo_cycle_started \<and>
   pending (per_cpu (perform_all (take 3 demo_mailbox_actions) demo_cycle_started) 2) \<and>
   enabled (perform_all (take 3 demo_mailbox_actions) demo_cycle_started) = 0 \<and>
   enabled demo_mailbox_applied = 0 \<and>
   migration_freq (per_cpu demo_mailbox_applied 2) = 1200000 \<and>
   mig_boost_rem (per_cpu demo_mailbox_applied 2) = Some 20 \<and>
   cpuinfo_min_freq (demo_policy 2 300000 600000) = 300000 \<and>
   policy_min (fst (do_cpu_boost 10000 CPUFREQ_ADJUST (demo_policy 2 300000 600000)
      demo_mailbox_applied)) = 1200000"
    by code_simp
  with demo_states_reachable(1) show ?thesis
    by (rule conjI)
qed

text \<open>
  C4. A CPU is meant to be admitted to the input-boost cycle only while the driver is
  enabled. On the run above the driver admits CPU1 with \<open>enabled\<close> at 0: the notifier
  call at time 5100, for CPU1 with a policy minimum of 1.2 GHz, finds the count 1 below
  the target 2 and 950 ms of the cycle left; it counts CPU1, puts it in the state
  \<open>BOOST\<close> and arms its restore timer. The early return of the disabled driver does not
  apply, because the policy minimum is not the hardware minimum, and the admission itself
  does not look at \<open>enabled\<close>.
\<close>

theorem admission_while_disabled:
  "reachable 4 demo_cycle_disabled \<and> enabled demo_cycle_disabled = 0 \<and>
   policy_cpu (demo_policy 1 300000 1200000) = 1 \<and>
   policy_min (demo_policy 1 300000 1200000) \<noteq> cpuinfo_min_freq (demo_policy 1 300000 1200000) \<and>
   ib_nr_cpus_boosted demo_cycle_disabled = 1 \<and> ib_nr_cpus_to_boost demo_cycle_disabled = 2 \<and>
   admits 5100 CPUFREQ_ADJUST (demo_policy 1 300000 1200000) demo_cycle_disabled \<and>
   enabled (snd (do_cpu_boost 5100 CPUFREQ_ADJUST (demo_policy 1 300000 1200000)
     demo_cycle_disabled)) = 0 \<and>
   ib_nr_cpus_boosted (snd (do_cpu_boost 5100 CPUFREQ_ADJUST (demo_policy 1 300000 1200000)
     demo_cycle_disabled)) = 2 \<and>
   boost_state (per_cpu (snd (do_cpu_boost 5100 CPUFREQ_ADJUST (demo_policy 1 300000 1200000)
     demo_cycle_disabled)) 1) = BOOST \<and>
   ib_restore_work (per_cpu (snd (do_cpu_boost 5100 CPUFREQ_ADJUST (demo_policy 1 300000 1200000)
     demo_cycle_disabled)) 1) = Some 950 \<and>
   policy_min (fst (do_cpu_boost 5100 CPUFREQ_ADJUST (demo_policy 1 300000 1200000)
     demo_cycle_disabled)) = min 2000000 1200000"
proof -
  have "enabled demo_cycle_disabled = 0 \<and>
   policy_cpu (demo_policy 1 300000 1200000) = 1 \<and>
   policy_min (demo_policy 1 300000 1200000) \<noteq> cpuinfo_min_freq (demo_policy 1 300000 1200000) \<and>
   ib_nr_cpus_boosted demo_cycle_disabled = 1 \<and> ib_nr_cpus_to_boost demo_cycle_disabled = 2 \<and>
   admits 5100 CPUFREQ_ADJUST (demo_policy 1 300000 1200000) demo_cycle_disabled \<and>
   enabled (snd (do_cpu_boost 5100 CPUFREQ_ADJUST (demo_policy 1 300000 1200000)
     demo_cycle_disabled)) = 0 \<and>
   ib_nr_cpus_boosted (snd (do_cpu_boost 5100 CPUFREQ_ADJUST (demo_policy 1 300000 1200000)
     demo_cycle_disabled)) = 2 \<and>
   boost_state (per_cpu (snd (do_cpu_boost 5100 CPUFREQ_ADJUST (demo_policy 1 300000 1200000)
     demo_cycle_disabled)) 1) = BOOST \<and>
   ib_restore_work (per_cpu (snd (do_cpu_boost 5100 CPUFREQ_ADJUST (demo_policy 1 300000 1200000)
     demo_cycle_disabled)) 1) = Some 950 \<and>
   policy_min (fst (do_cpu_boost 5100 CPUFREQ_ADJUST (demo_policy 1 300000 1200000)
     demo_cycle_disabled)) = min 2000000 1200000"
    by code_simp
  with demo_states_reachable(2) show ?thesis
    by (rule conjI)
qed

end
